theory Spec2Isabelle
  imports Main "HOL-Library.AList"
begin

section \<open>Python values, dictionaries and exceptions\<close>

text \<open>
  The view \<^verbatim>\<open>AlexaFlashBriefingView\<close> of
  \<^verbatim>\<open>homeassistant/components/alexa/flash_briefings.py\<close> reads a configuration
  dictionary whose values are arbitrary Python objects. The objects the view can tell
  apart are modelled by one datatype. A \<^verbatim>\<open>template.Template\<close> object is
  represented by its source text. A Python \<^verbatim>\<open>str\<close> is a \<open>string\<close>: a list of
  characters with code points below 256. A \<^verbatim>\<open>dict\<close> with string keys is an
  association list in insertion order; a lookup finds the first pair of a key.
\<close>

type_synonym template = string

datatype pyval =
    PNone
  | PBool bool
  | PInt int
  | PStr string
  | PTemplate template
  | PList "pyval list"
  | PDict "(string \<times> pyval) list"

type_synonym pydict = "(string \<times> pyval) list"

text \<open>\<^verbatim>\<open>bytes\<close>: every element is below 256.\<close>

type_synonym bytes = "nat list"

datatype exn =
    KeyError string
  | AttributeError
  | TypeError
  | TemplateError template

text \<open>\<^verbatim>\<open>d.get(k)\<close>, \<^verbatim>\<open>d.get(k, default)\<close>, \<^verbatim>\<open>d[k]\<close> and \<^verbatim>\<open>d[k] = v\<close> on a dict.\<close>

definition dict_get :: "pydict \<Rightarrow> string \<Rightarrow> pyval" where
  "dict_get d k = (case map_of d k of None \<Rightarrow> PNone | Some v \<Rightarrow> v)"

definition dict_get_default :: "pydict \<Rightarrow> string \<Rightarrow> pyval \<Rightarrow> pyval" where
  "dict_get_default d k dflt = (case map_of d k of None \<Rightarrow> dflt | Some v \<Rightarrow> v)"

definition dict_getitem :: "pydict \<Rightarrow> string \<Rightarrow> exn + pyval" where
  "dict_getitem d k = (case map_of d k of None \<Rightarrow> Inl (KeyError k) | Some v \<Rightarrow> Inr v)"

definition dict_setitem :: "pydict \<Rightarrow> string \<Rightarrow> pyval \<Rightarrow> pydict" where
  "dict_setitem d k v = AList.update k v d"

text \<open>
  The same two reads on an object of unknown type, as \<^verbatim>\<open>item.get(key)\<close> and
  \<^verbatim>\<open>item[key]\<close> are written in the source: only a dict has a \<^verbatim>\<open>get\<close> method
  (\<^verbatim>\<open>AttributeError\<close> otherwise), and no other object of the model can be
  subscripted by a string (\<^verbatim>\<open>TypeError\<close>).
\<close>

fun py_get :: "pyval \<Rightarrow> string \<Rightarrow> exn + pyval" where
  "py_get (PDict d) k = Inr (dict_get d k)"
| "py_get _ k = Inl AttributeError"

fun py_getitem :: "pyval \<Rightarrow> string \<Rightarrow> exn + pyval" where
  "py_getitem (PDict d) k = dict_getitem d k"
| "py_getitem _ k = Inl TypeError"

text \<open>
  \<^verbatim>\<open>isinstance(v, list)\<close>. The test \<^verbatim>\<open>isinstance(v, template.Template)\<close> is
  written as a case distinction on the constructor \<open>PTemplate\<close>.
\<close>

fun isinstance_list :: "pyval \<Rightarrow> bool" where
  "isinstance_list (PList xs) = True"
| "isinstance_list _ = False"

text \<open>
  What a \<^verbatim>\<open>for\<close> loop iterates over: the elements of a list, the characters of a
  string, the keys of a dict; the other objects are not iterable.
\<close>

fun py_iter :: "pyval \<Rightarrow> exn + pyval list" where
  "py_iter (PList xs) = Inr xs"
| "py_iter (PStr s) = Inr (map (\<lambda>c. PStr [c]) s)"
| "py_iter (PDict d) = Inr (map (\<lambda>(k, v). PStr k) d)"
| "py_iter _ = Inl TypeError"

subsection \<open>Encoding a string as UTF-8\<close>

text \<open>
  \<^verbatim>\<open>s.encode("utf-8")\<close> for code points below 256: one byte below 128, two bytes
  from 128 on. Only a \<^verbatim>\<open>str\<close> has the method.
\<close>

definition utf8_char :: "char \<Rightarrow> bytes" where
  "utf8_char c =
     (let n = (of_char c :: nat)
      in if n < 128 then [n] else [192 + n div 64, 128 + n mod 64])"

definition encode_utf8 :: "string \<Rightarrow> bytes" where
  "encode_utf8 s = concat (map utf8_char s)"

fun py_encode_utf8 :: "pyval \<Rightarrow> exn + bytes" where
  "py_encode_utf8 (PStr s) = Inr (encode_utf8 s)"
| "py_encode_utf8 _ = Inl AttributeError"

text \<open>
  \<^verbatim>\<open>hmac.compare_digest(a, b)\<close> on two \<^verbatim>\<open>bytes\<close> objects returns whether they are
  equal. Only this result is modelled.
\<close>

definition compare_digest :: "bytes \<Rightarrow> bytes \<Rightarrow> bool" where
  "compare_digest a b \<longleftrightarrow> a = b"

section \<open>The constants imported by the module\<close>

text \<open>
  The module imports its key strings from \<^verbatim>\<open>.const\<close> and
  \<^verbatim>\<open>homeassistant.const\<close>, which are not part of the source under verification.
  They are a parameter of the model, one field for each imported name.
\<close>

record constants =
  API_PASSWORD :: string
  ATTR_MAIN_TEXT :: string
  ATTR_REDIRECTION_URL :: string
  ATTR_STREAM_URL :: string
  ATTR_TITLE_TEXT :: string
  ATTR_UID :: string
  ATTR_UPDATE_DATE :: string
  CONF_AUDIO :: string
  CONF_DISPLAY_URL :: string
  CONF_TEXT :: string
  CONF_TITLE :: string
  CONF_UID :: string
  DATE_FORMAT :: string
  CONF_PASSWORD :: string

text \<open>The six keys of an output record are pairwise different strings.\<close>

definition output_keys :: "constants \<Rightarrow> string list" where
  "output_keys K =
     [ATTR_TITLE_TEXT K, ATTR_MAIN_TEXT K, ATTR_UID K,
      ATTR_STREAM_URL K, ATTR_REDIRECTION_URL K, ATTR_UPDATE_DATE K]"

definition distinct_output_keys :: "constants \<Rightarrow> bool" where
  "distinct_output_keys K \<longleftrightarrow> distinct (output_keys K)"

text \<open>\<^verbatim>\<open>HTTPStatus.OK\<close>, \<^verbatim>\<open>HTTPStatus.UNAUTHORIZED\<close>, \<^verbatim>\<open>HTTPStatus.NOT_FOUND\<close>.\<close>

definition HTTP_OK :: nat where "HTTP_OK = 200"
definition HTTP_UNAUTHORIZED :: nat where "HTTP_UNAUTHORIZED = 401"
definition HTTP_NOT_FOUND :: nat where "HTTP_NOT_FOUND = 404"

section \<open>The world outside the view\<close>

text \<open>
  The view calls four collaborators: the random UUID generator, the clock, the template
  engine and the logger. What they answer is fixed by an environment; how often they
  have been called is the state that a call changes. The \<open>k\<close>-th call of
  \<^verbatim>\<open>uuid.uuid4()\<close> yields an object whose \<^verbatim>\<open>str\<close> is \<open>uuid4_str E k\<close>, the
  \<open>k\<close>-th call of \<^verbatim>\<open>dt_util.utcnow()\<close> yields the instant \<open>utcnow E k\<close>, and
  \<open>strftime E t fmt\<close> is \<^verbatim>\<open>t.strftime(fmt)\<close>. A template renders to the text
  \<open>render_text E t\<close> or fails with an exception. The world counts the UUIDs drawn and
  the reads of the clock, and lists the templates rendered and the records logged.
\<close>

type_synonym datetime = nat

record env =
  uuid4_str :: "nat \<Rightarrow> string"
  utcnow :: "nat \<Rightarrow> datetime"
  strftime :: "datetime \<Rightarrow> string \<Rightarrow> string"
  render_text :: "template \<Rightarrow> exn + string"
  parse_rendered :: "string \<Rightarrow> pyval"
  str_object :: "pyval \<Rightarrow> string"

datatype level = DEBUG | ERROR

record world =
  uuid_draws :: nat
  clock_reads :: nat
  rendered :: "template list"
  logged :: "(level \<times> string \<times> string list) list"

definition logger :: "level \<Rightarrow> string \<Rightarrow> string list \<Rightarrow> world \<Rightarrow> world" where
  "logger lvl msg args w = w\<lparr>logged := logged w @ [(lvl, msg, args)]\<rparr>"

definition uuid4 :: "env \<Rightarrow> world \<Rightarrow> string \<times> world" where
  "uuid4 E w = (uuid4_str E (uuid_draws w), w\<lparr>uuid_draws := Suc (uuid_draws w)\<rparr>)"

definition utcnow_read :: "env \<Rightarrow> world \<Rightarrow> datetime \<times> world" where
  "utcnow_read E w = (utcnow E (clock_reads w), w\<lparr>clock_reads := Suc (clock_reads w)\<rparr>)"

text \<open>
  Modelled from the spec: \<^verbatim>\<open>Template.async_render\<close> of
  \<^verbatim>\<open>homeassistant.helpers.template\<close> is not part of the source under verification.
  The spec says that a template is rendered at request time, that with
  \<^verbatim>\<open>parse_result=False\<close> the result is the rendered text with no type coercion, and
  that a rendering failure propagates to the caller. The rendered text, or the failure,
  is the environment's \<open>render_text\<close>; the call is recorded in the world.
\<close>

definition async_render :: "env \<Rightarrow> template \<Rightarrow> bool \<Rightarrow> world \<Rightarrow> (exn + pyval) \<times> world" where
  "async_render E t parse_result w =
     (let w' = w\<lparr>rendered := rendered w @ [t]\<rparr>
      in case render_text E t of
           Inl e \<Rightarrow> (Inl e, w')
         | Inr s \<Rightarrow> (Inr (if parse_result then parse_rendered E s else PStr s), w'))"

text \<open>
  \<^verbatim>\<open>str(v)\<close>: a string is its own \<^verbatim>\<open>str\<close>, an integer is written in decimal
  with a minus sign when it is negative, the truth values are \<^verbatim>\<open>True\<close> and
  \<^verbatim>\<open>False\<close>, and \<^verbatim>\<open>None\<close> is \<^verbatim>\<open>None\<close>. The text of a template object, a
  list or a dict is left to the environment. The limit that recent interpreters put on
  the number of digits of such a conversion is not modelled.
\<close>

definition digit_char :: "nat \<Rightarrow> char" where
  "digit_char n = ''0123456789'' ! n"

function str_nat :: "nat \<Rightarrow> string" where
  "str_nat n = (if n < 10 then [digit_char n] else str_nat (n div 10) @ [digit_char (n mod 10)])"
  by pat_completeness auto
termination
  by (relation "measure id") auto

declare str_nat.simps [simp del]

definition str_int :: "int \<Rightarrow> string" where
  "str_int i = (if i < 0 then CHR ''-'' # str_nat (nat (- i)) else str_nat (nat i))"

fun py_str :: "env \<Rightarrow> pyval \<Rightarrow> string" where
  "py_str E (PStr s) = s"
| "py_str E (PInt i) = str_int i"
| "py_str E (PBool b) = (if b then ''True'' else ''False'')"
| "py_str E PNone = ''None''"
| "py_str E v = str_object E v"

section \<open>Requests and responses\<close>

text \<open>
  \<^verbatim>\<open>request.query\<close> is a multi-dictionary of strings: \<^verbatim>\<open>get\<close> and subscription
  return the first value of a key.
\<close>

record request =
  query :: "(string \<times> string) list"

definition query_get :: "request \<Rightarrow> string \<Rightarrow> string option" where
  "query_get r k = map_of (query r) k"

definition query_getitem :: "request \<Rightarrow> string \<Rightarrow> exn + string" where
  "query_getitem r k = (case map_of (query r) k of None \<Rightarrow> Inl (KeyError k) | Some v \<Rightarrow> Inr v)"

text \<open>
  The handler returns either a pair of a body and a status, or the response object built
  by \<^verbatim>\<open>self.json\<close>.
\<close>

datatype response =
    Body_Status bytes nat
  | Json_Response "pydict list" nat

text \<open>
  Modelled from the spec: \<^verbatim>\<open>HomeAssistantView.json\<close> of
  \<^verbatim>\<open>homeassistant.components.http\<close> is not part of the source under verification.
  The spec says that it serialises the ordered list of output records as a JSON array
  body with status 200. The array is kept as the list of records.
\<close>

definition json :: "pydict list \<Rightarrow> response" where
  "json result = Json_Response result HTTP_OK"

section \<open>The view\<close>

text \<open>\<^verbatim>\<open>validate_password\<close>, lines 80 to 93.\<close>

definition validate_password ::
  "constants \<Rightarrow> pydict \<Rightarrow> request \<Rightarrow> world \<Rightarrow> (exn + bool) \<times> world" where
  "validate_password K flash_briefings r w =
     (if query_get r (API_PASSWORD K) = None then
        (Inr False, logger ERROR ''No password provided for Alexa flash briefing'' [] w)
      else
        case query_getitem r (API_PASSWORD K) of
          Inl e \<Rightarrow> (Inl e, w)
        | Inr supplied \<Rightarrow>
            (case dict_getitem flash_briefings (CONF_PASSWORD K) of
               Inl e \<Rightarrow> (Inl e, w)
             | Inr configured \<Rightarrow>
                 (case py_encode_utf8 configured of
                    Inl e \<Rightarrow> (Inl e, w)
                  | Inr b \<Rightarrow>
                      if \<not> compare_digest (encode_utf8 supplied) b then
                        (Inr False, logger ERROR ''Wrong password for Alexa flash briefing'' [] w)
                      else (Inr True, w))))"

text \<open>\<^verbatim>\<open>is_valid_briefing\<close>, lines 95 to 102.\<close>

definition is_valid_briefing :: "pydict \<Rightarrow> string \<Rightarrow> world \<Rightarrow> bool \<times> world" where
  "is_valid_briefing flash_briefings briefing_id w =
     (if \<not> isinstance_list (dict_get flash_briefings briefing_id) then
        (False,
         logger ERROR ''No configured Alexa flash briefing was found for: %s'' [briefing_id] w)
      else (True, w))"

text \<open>
  \<^verbatim>\<open>add_attribute_to_output\<close>, lines 123 to 131. The source mutates \<^verbatim>\<open>output\<close>;
  the model returns the updated dictionary.
\<close>

definition add_attribute_to_output ::
  "env \<Rightarrow> pyval \<Rightarrow> string \<Rightarrow> pydict \<Rightarrow> string \<Rightarrow> world \<Rightarrow> (exn + pydict) \<times> world" where
  "add_attribute_to_output E item conf_key output output_key w =
     (case py_get item conf_key of
        Inl e \<Rightarrow> (Inl e, w)
      | Inr v \<Rightarrow>
          if v \<noteq> PNone then
            (case py_getitem item conf_key of
               Inl e \<Rightarrow> (Inl e, w)
             | Inr x \<Rightarrow>
                 (case x of
                    PTemplate t \<Rightarrow>
                      (case async_render E t False w of
                         (Inl e, w') \<Rightarrow> (Inl e, w')
                       | (Inr text, w') \<Rightarrow> (Inr (dict_setitem output output_key text), w'))
                  | _ \<Rightarrow>
                      (case py_get item conf_key of
                         Inl e \<Rightarrow> (Inl e, w)
                       | Inr y \<Rightarrow> (Inr (dict_setitem output output_key y), w))))
          else (Inr output, w))"

text \<open>\<^verbatim>\<open>get_uid\<close>, lines 133 to 137.\<close>

definition get_uid :: "constants \<Rightarrow> env \<Rightarrow> pyval \<Rightarrow> world \<Rightarrow> (exn + string) \<times> world" where
  "get_uid K E item w =
     (case py_get item (CONF_UID K) of
        Inl e \<Rightarrow> (Inl e, w)
      | Inr uid \<Rightarrow>
          if uid = PNone then (case uuid4 E w of (u, w') \<Rightarrow> (Inr u, w'))
          else (Inr (py_str E uid), w))"

text \<open>\<^verbatim>\<open>process_item\<close>, lines 104 to 121.\<close>

definition process_item :: "constants \<Rightarrow> env \<Rightarrow> pyval \<Rightarrow> world \<Rightarrow> (exn + pydict) \<times> world" where
  "process_item K E item w =
     (case add_attribute_to_output E item (CONF_TITLE K) [] (ATTR_TITLE_TEXT K) w of
        (Inl e, w1) \<Rightarrow> (Inl e, w1)
      | (Inr output1, w1) \<Rightarrow>
     (case add_attribute_to_output E item (CONF_TEXT K) output1 (ATTR_MAIN_TEXT K) w1 of
        (Inl e, w2) \<Rightarrow> (Inl e, w2)
      | (Inr output2, w2) \<Rightarrow>
     (case get_uid K E item w2 of
        (Inl e, w3) \<Rightarrow> (Inl e, w3)
      | (Inr uid, w3) \<Rightarrow>
     (case add_attribute_to_output E item (CONF_AUDIO K)
             (dict_setitem output2 (ATTR_UID K) (PStr uid)) (ATTR_STREAM_URL K) w3 of
        (Inl e, w4) \<Rightarrow> (Inl e, w4)
      | (Inr output4, w4) \<Rightarrow>
     (case add_attribute_to_output E item (CONF_DISPLAY_URL K)
             output4 (ATTR_REDIRECTION_URL K) w4 of
        (Inl e, w5) \<Rightarrow> (Inl e, w5)
      | (Inr output5, w5) \<Rightarrow>
     (case utcnow_read E w5 of
        (now, w6) \<Rightarrow>
          (Inr (dict_setitem output5 (ATTR_UPDATE_DATE K)
                  (PStr (strftime E now (DATE_FORMAT K)))), w6)))))))"

text \<open>
  The loop of \<^verbatim>\<open>get\<close>, lines 73 to 76: \<open>briefing\<close> is the list built so far. An empty
  dict is falsy, any other dict is truthy.
\<close>

fun briefing_loop ::
  "constants \<Rightarrow> env \<Rightarrow> pyval list \<Rightarrow> pydict list \<Rightarrow> world \<Rightarrow> (exn + pydict list) \<times> world" where
  "briefing_loop K E [] briefing w = (Inr briefing, w)"
| "briefing_loop K E (item # items) briefing w =
     (case process_item K E item w of
        (Inl e, w') \<Rightarrow> (Inl e, w')
      | (Inr output, w') \<Rightarrow>
          briefing_loop K E items (if output \<noteq> [] then briefing @ [output] else briefing) w')"

text \<open>\<^verbatim>\<open>get\<close>, lines 56 to 78: the handler of a request.\<close>

definition get ::
  "constants \<Rightarrow> env \<Rightarrow> pydict \<Rightarrow> request \<Rightarrow> string \<Rightarrow> world \<Rightarrow> (exn + response) \<times> world" where
  "get K E flash_briefings r briefing_id w =
     (let w0 = logger DEBUG ''Received Alexa flash briefing request for: %s'' [briefing_id] w
      in case validate_password K flash_briefings r w0 of
           (Inl e, w1) \<Rightarrow> (Inl e, w1)
         | (Inr ok, w1) \<Rightarrow>
             if \<not> ok then (Inr (Body_Status [] HTTP_UNAUTHORIZED), w1)
             else
               (case is_valid_briefing flash_briefings briefing_id w1 of
                  (valid, w2) \<Rightarrow>
                    if \<not> valid then (Inr (Body_Status [] HTTP_NOT_FOUND), w2)
                    else
                      (case py_iter (dict_get_default flash_briefings briefing_id (PList [])) of
                         Inl e \<Rightarrow> (Inl e, w2)
                       | Inr items \<Rightarrow>
                           (case briefing_loop K E items [] w2 of
                              (Inl e, w3) \<Rightarrow> (Inl e, w3)
                            | (Inr briefing, w3) \<Rightarrow> (Inr (json briefing), w3)))))"

section \<open>Notions used to state the properties\<close>

subsection \<open>When an item can be transformed\<close>

text \<open>
  A configured value renders if it is not a template, or a template whose rendering does
  not fail. An item renders if it is a dict and the values of its four template-capable
  keys render.
\<close>

definition field_renders :: "env \<Rightarrow> pyval \<Rightarrow> bool" where
  "field_renders E v =
     (case v of
        PTemplate t \<Rightarrow> (case render_text E t of Inl e \<Rightarrow> False | Inr s \<Rightarrow> True)
      | _ \<Rightarrow> True)"

definition template_keys :: "constants \<Rightarrow> string list" where
  "template_keys K = [CONF_TITLE K, CONF_TEXT K, CONF_AUDIO K, CONF_DISPLAY_URL K]"

definition item_renders :: "constants \<Rightarrow> env \<Rightarrow> pyval \<Rightarrow> bool" where
  "item_renders K E item =
     (case item of
        PDict d \<Rightarrow> list_all (\<lambda>ck. field_renders E (dict_get d ck)) (template_keys K)
      | _ \<Rightarrow> False)"

text \<open>The four pairs of a configuration key and the output key it is copied to.\<close>

definition field_keys :: "constants \<Rightarrow> (string \<times> string) list" where
  "field_keys K =
     [(CONF_TITLE K, ATTR_TITLE_TEXT K), (CONF_TEXT K, ATTR_MAIN_TEXT K),
      (CONF_AUDIO K, ATTR_STREAM_URL K), (CONF_DISPLAY_URL K, ATTR_REDIRECTION_URL K)]"

subsection \<open>The output record as a mapping\<close>

text \<open>
  What one configured value contributes to the output: nothing when \<^verbatim>\<open>item.get\<close>
  yields \<^verbatim>\<open>None\<close>, the rendered text for a template, the value itself otherwise.
\<close>

definition expected_field :: "env \<Rightarrow> pyval \<Rightarrow> pyval option" where
  "expected_field E v =
     (case v of
        PNone \<Rightarrow> None
      | PTemplate t \<Rightarrow> (case render_text E t of Inl e \<Rightarrow> None | Inr s \<Rightarrow> Some (PStr s))
      | _ \<Rightarrow> Some v)"

definition set_field ::
  "env \<Rightarrow> pyval \<Rightarrow> string \<Rightarrow> (string \<rightharpoonup> pyval) \<Rightarrow> (string \<rightharpoonup> pyval)" where
  "set_field E v ok m = (if v = PNone then m else m(ok := expected_field E v))"

definition field_templates :: "pyval \<Rightarrow> template list" where
  "field_templates v = (case v of PTemplate t \<Rightarrow> [t] | _ \<Rightarrow> [])"

definition item_templates :: "constants \<Rightarrow> pydict \<Rightarrow> template list" where
  "item_templates K d = concat (map (\<lambda>ck. field_templates (dict_get d ck)) (template_keys K))"

definition uid_of :: "constants \<Rightarrow> env \<Rightarrow> pydict \<Rightarrow> world \<Rightarrow> string" where
  "uid_of K E d w =
     (if dict_get d (CONF_UID K) = PNone then uuid4_str E (uuid_draws w)
      else py_str E (dict_get d (CONF_UID K)))"

definition update_date_of :: "constants \<Rightarrow> env \<Rightarrow> world \<Rightarrow> string" where
  "update_date_of K E w = strftime E (utcnow E (clock_reads w)) (DATE_FORMAT K)"

text \<open>
  The record that \<open>process_item\<close> builds for the dict \<open>d\<close> in the world \<open>w\<close>, as a
  mapping from keys to values, with the six writes in the order of the source; and the
  world it leaves behind.
\<close>

definition record_map :: "constants \<Rightarrow> env \<Rightarrow> pydict \<Rightarrow> world \<Rightarrow> (string \<rightharpoonup> pyval)" where
  "record_map K E d w =
     (set_field E (dict_get d (CONF_DISPLAY_URL K)) (ATTR_REDIRECTION_URL K)
       (set_field E (dict_get d (CONF_AUDIO K)) (ATTR_STREAM_URL K)
         ((set_field E (dict_get d (CONF_TEXT K)) (ATTR_MAIN_TEXT K)
            (set_field E (dict_get d (CONF_TITLE K)) (ATTR_TITLE_TEXT K) Map.empty))
          (ATTR_UID K \<mapsto> PStr (uid_of K E d w)))))
     (ATTR_UPDATE_DATE K \<mapsto> PStr (update_date_of K E w))"

definition world_after :: "constants \<Rightarrow> pydict \<Rightarrow> world \<Rightarrow> world" where
  "world_after K d w =
     w\<lparr>uuid_draws := (if dict_get d (CONF_UID K) = PNone then Suc (uuid_draws w) else uuid_draws w),
       clock_reads := Suc (clock_reads w),
       rendered := rendered w @ item_templates K d\<rparr>"

text \<open>
  Between two worlds nothing but logging has happened: no UUID was drawn, the clock was
  not read, no template was rendered. No item has been transformed in between.
\<close>

definition only_logged :: "world \<Rightarrow> world \<Rightarrow> bool" where
  "only_logged w w' \<longleftrightarrow>
     uuid_draws w' = uuid_draws w \<and> clock_reads w' = clock_reads w \<and> rendered w' = rendered w"

subsection \<open>Concrete inputs\<close>

text \<open>
  Modelled from the spec: the values of the constants of \<^verbatim>\<open>.const\<close> and
  \<^verbatim>\<open>homeassistant.const\<close> are not part of the source under verification. The spec
  names the query parameter \<^verbatim>\<open>api_password\<close>, the configuration keys
  \<^verbatim>\<open>password\<close>, \<^verbatim>\<open>title\<close>, \<^verbatim>\<open>text\<close> and \<^verbatim>\<open>uid\<close> and the output keys
  \<^verbatim>\<open>uid\<close> and \<^verbatim>\<open>updateDate\<close>, and calls its other key names placeholders; the
  remaining strings follow the imported names. This assignment is used only to evaluate
  the model on concrete inputs: the general theorems hold for every assignment.
\<close>

definition alexa_constants :: constants where
  "alexa_constants =
     \<lparr>API_PASSWORD = ''api_password'',
      ATTR_MAIN_TEXT = ''mainText'',
      ATTR_REDIRECTION_URL = ''redirectionURL'',
      ATTR_STREAM_URL = ''streamUrl'',
      ATTR_TITLE_TEXT = ''titleText'',
      ATTR_UID = ''uid'',
      ATTR_UPDATE_DATE = ''updateDate'',
      CONF_AUDIO = ''audio'',
      CONF_DISPLAY_URL = ''display_url'',
      CONF_TEXT = ''text'',
      CONF_TITLE = ''title'',
      CONF_UID = ''uid'',
      DATE_FORMAT = ''%Y-%m-%dT%H:%M:%S.0Z'',
      CONF_PASSWORD = ''password''\<rparr>"

text \<open>
  An environment: the \<open>k\<close>-th UUID is \<^verbatim>\<open>uuid4-\<close> followed by \<open>k\<close> letters, the
  clock counts its reads, a formatted date is the format followed by one sign for each
  unit of time, the template \<^verbatim>\<open>{{ 1 / 0 }}\<close> fails to render and
  \<^verbatim>\<open>{{ greeting }}\<close> renders to \<^verbatim>\<open>Hello\<close>.
\<close>

definition sample_env :: env where
  "sample_env =
     \<lparr>uuid4_str = (\<lambda>k. ''uuid4-'' @ replicate k (CHR ''i'')),
      utcnow = (\<lambda>k. k),
      strftime = (\<lambda>t fmt. fmt @ replicate t (CHR ''+'')),
      render_text = (\<lambda>t. if t = ''{{ 1 / 0 }}'' then Inl (TemplateError t)
                         else if t = ''{{ greeting }}'' then Inr ''Hello'' else Inr t),
      parse_rendered = PStr,
      str_object = (\<lambda>v. ''object'')\<rparr>"

text \<open>The same environment with a generator that returns one UUID again and again.\<close>

definition repeating_env :: env where
  "repeating_env = sample_env\<lparr>uuid4_str := (\<lambda>k. ''uuid4-same'')\<rparr>"

definition start_world :: world where
  "start_world = \<lparr>uuid_draws = 0, clock_reads = 0, rendered = [], logged = []\<rparr>"

text \<open>The configuration of the spec's end-to-end example.\<close>

definition news_config :: pydict where
  "news_config =
     [(''news'', PList [PDict [(''title'', PStr ''Static''), (''text'', PStr ''Body''),
                               (''uid'', PStr ''abc-1'')]]),
      (''password'', PStr ''secret'')]"

text \<open>
  A request with the password of the example; a configuration whose only item has a
  title that fails to render; one with a sound item before such an item; one with two
  sound items; and an item with a template, a string and a number.
\<close>

definition secret_request :: request where
  "secret_request = \<lparr>query = [(''api_password'', ''secret'')]\<rparr>"

definition failing_config :: pydict where
  "failing_config =
     [(''password'', PStr ''secret''),
      (''news'', PList [PDict [(''title'', PTemplate ''{{ 1 / 0 }}'')]])]"

definition half_failing_config :: pydict where
  "half_failing_config =
     [(''password'', PStr ''secret''),
      (''news'', PList [PDict [(''title'', PStr ''Static'')],
                        PDict [(''title'', PTemplate ''{{ 1 / 0 }}'')]])]"

definition two_item_config :: pydict where
  "two_item_config =
     [(''password'', PStr ''secret''),
      (''news'', PList [PDict [(''title'', PStr ''Static''), (''uid'', PStr ''abc-1'')],
                        PDict [(''title'', PTemplate ''{{ greeting }}'')]])]"

definition greeting_item :: pydict where
  "greeting_item =
     [(''title'', PTemplate ''{{ greeting }}''), (''text'', PStr ''Body''),
      (''display_url'', PInt 7)]"

section \<open>Auxiliary facts\<close>

subsection \<open>The UTF-8 encoding is injective\<close>

lemma utf8_char_nonempty: "utf8_char c \<noteq> []"
  by (simp add: utf8_char_def Let_def)

lemma div_mod_64_eq:
  fixes m n :: nat
  assumes "m div 64 = n div 64" and "m mod 64 = n mod 64"
  shows "m = n"
proof -
  have "m = 64 * (m div 64) + m mod 64" by simp
  also have "\<dots> = 64 * (n div 64) + n mod 64" using assms by simp
  also have "\<dots> = n" by simp
  finally show ?thesis .
qed

lemma utf8_char_prefix_inj:
  assumes "utf8_char c @ xs = utf8_char d @ ys"
  shows "c = d \<and> xs = ys"
proof -
  let ?m = "of_char c :: nat" and ?n = "of_char d :: nat"
  have "?m = ?n \<and> xs = ys"
  proof (cases "?m < 128")
    case m: True
    show ?thesis
    proof (cases "?n < 128")
      case True
      with m assms show ?thesis by (simp add: utf8_char_def Let_def)
    next
      case False
      with m assms have "?m = 192 + ?n div 64" by (simp add: utf8_char_def Let_def)
      with m show ?thesis by simp
    qed
  next
    case m: False
    show ?thesis
    proof (cases "?n < 128")
      case True
      with m assms have "?n = 192 + ?m div 64" by (simp add: utf8_char_def Let_def)
      with True show ?thesis by simp
    next
      case False
      with m assms have "?m div 64 = ?n div 64" and "?m mod 64 = ?n mod 64" and "xs = ys"
        by (simp_all add: utf8_char_def Let_def)
      then show ?thesis using div_mod_64_eq by blast
    qed
  qed
  then show ?thesis by simp
qed

lemma encode_utf8_inj: "encode_utf8 s = encode_utf8 t \<Longrightarrow> s = t"
proof (induction s arbitrary: t)
  case Nil
  then show ?case
    by (cases t) (auto simp: encode_utf8_def utf8_char_nonempty)
next
  case (Cons c s)
  show ?case
  proof (cases t)
    case Nil
    with Cons.prems show ?thesis
      by (auto simp: encode_utf8_def utf8_char_nonempty)
  next
    case (Cons d t')
    with Cons.prems have "utf8_char c @ encode_utf8 s = utf8_char d @ encode_utf8 t'"
      by (simp add: encode_utf8_def)
    then have "c = d" and "encode_utf8 s = encode_utf8 t'"
      using utf8_char_prefix_inj by blast+
    with Cons.IH Cons show ?thesis by simp
  qed
qed

lemma compare_digest_encode:
  "compare_digest (encode_utf8 s) (encode_utf8 t) \<longleftrightarrow> s = t"
  using encode_utf8_inj by (auto simp: compare_digest_def)

subsection \<open>One attribute, the UID\<close>

lemma add_attribute_dict:
  "add_attribute_to_output E (PDict d) ck out ok w =
     (case dict_get d ck of
        PNone \<Rightarrow> (Inr out, w)
      | PTemplate t \<Rightarrow>
          (case render_text E t of
             Inl e \<Rightarrow> (Inl e, w\<lparr>rendered := rendered w @ [t]\<rparr>)
           | Inr s \<Rightarrow> (Inr (dict_setitem out ok (PStr s)), w\<lparr>rendered := rendered w @ [t]\<rparr>))
      | v \<Rightarrow> (Inr (dict_setitem out ok v), w))"
  by (auto simp: add_attribute_to_output_def dict_get_def dict_getitem_def async_render_def
      split: option.splits pyval.splits sum.splits)

lemma add_attribute_not_dict:
  "(\<forall>d. item \<noteq> PDict d) \<Longrightarrow> add_attribute_to_output E item ck out ok w = (Inl AttributeError, w)"
  by (cases item) (simp_all add: add_attribute_to_output_def)

lemma add_attribute_Inr:
  assumes "add_attribute_to_output E item ck out ok w = (Inr out', w')"
  shows "\<exists>d. item = PDict d \<and> field_renders E (dict_get d ck)
           \<and> map_of out' = set_field E (dict_get d ck) ok (map_of out)
           \<and> w' = w\<lparr>rendered := rendered w @ field_templates (dict_get d ck)\<rparr>"
proof (cases item)
  case (PDict d)
  have "w\<lparr>rendered := rendered w\<rparr> = w" by simp
  with assms PDict show ?thesis
    by (auto simp: add_attribute_dict field_renders_def expected_field_def field_templates_def
        dict_setitem_def update_conv' set_field_def
        split: pyval.splits sum.splits)
qed (use assms in \<open>simp_all add: add_attribute_to_output_def\<close>)

lemma add_attribute_renders:
  assumes "field_renders E (dict_get d ck)"
  shows "\<exists>out' w'. add_attribute_to_output E (PDict d) ck out ok w = (Inr out', w')"
  using assms
  by (auto simp: add_attribute_dict field_renders_def split: pyval.splits sum.splits)

lemma get_uid_dict:
  "get_uid K E (PDict d) w =
     (if dict_get d (CONF_UID K) = PNone
      then (Inr (uuid4_str E (uuid_draws w)), w\<lparr>uuid_draws := Suc (uuid_draws w)\<rparr>)
      else (Inr (py_str E (dict_get d (CONF_UID K))), w))"
  by (simp add: get_uid_def uuid4_def)

lemma get_uid_Inr:
  assumes "get_uid K E (PDict d) w = (Inr uid, w')"
  shows "(dict_get d (CONF_UID K) = PNone \<longrightarrow>
            uid = uuid4_str E (uuid_draws w) \<and> w' = w\<lparr>uuid_draws := Suc (uuid_draws w)\<rparr>)
       \<and> (dict_get d (CONF_UID K) \<noteq> PNone \<longrightarrow>
            uid = py_str E (dict_get d (CONF_UID K)) \<and> w' = w)"
  using assms by (auto simp: get_uid_dict split: if_splits)

lemma expected_field_Some:
  "field_renders E v \<Longrightarrow> v \<noteq> PNone \<Longrightarrow> \<exists>x. expected_field E v = Some x"
  by (auto simp: field_renders_def expected_field_def split: pyval.splits sum.splits)

subsection \<open>The transform of one item\<close>

lemma process_item_Inr:
  assumes "process_item K E item w = (Inr out, w')"
  shows "\<exists>d o1 w1 o2 w2 uid w3 o4 w4 o5 w5.
           item = PDict d
         \<and> add_attribute_to_output E item (CONF_TITLE K) [] (ATTR_TITLE_TEXT K) w = (Inr o1, w1)
         \<and> add_attribute_to_output E item (CONF_TEXT K) o1 (ATTR_MAIN_TEXT K) w1 = (Inr o2, w2)
         \<and> get_uid K E item w2 = (Inr uid, w3)
         \<and> add_attribute_to_output E item (CONF_AUDIO K)
               (dict_setitem o2 (ATTR_UID K) (PStr uid)) (ATTR_STREAM_URL K) w3 = (Inr o4, w4)
         \<and> add_attribute_to_output E item (CONF_DISPLAY_URL K) o4 (ATTR_REDIRECTION_URL K) w4
               = (Inr o5, w5)
         \<and> out = dict_setitem o5 (ATTR_UPDATE_DATE K)
                   (PStr (strftime E (utcnow E (clock_reads w5)) (DATE_FORMAT K)))
         \<and> w' = w5\<lparr>clock_reads := Suc (clock_reads w5)\<rparr>"
proof (cases item)
  case (PDict d)
  with assms show ?thesis
    unfolding process_item_def utcnow_read_def
    by (simp split: prod.splits sum.splits)
qed (use assms in \<open>simp_all add: process_item_def add_attribute_to_output_def\<close>)

lemma process_item_summary:
  assumes "process_item K E item w = (Inr out, w')"
  shows "\<exists>d. item = PDict d \<and> item_renders K E item
             \<and> map_of out = record_map K E d w \<and> w' = world_after K d w"
proof -
  from process_item_Inr [OF assms] obtain d o1 w1 o2 w2 uid w3 o4 w4 o5 w5 where
    item: "item = PDict d"
    and s1: "add_attribute_to_output E item (CONF_TITLE K) [] (ATTR_TITLE_TEXT K) w = (Inr o1, w1)"
    and s2: "add_attribute_to_output E item (CONF_TEXT K) o1 (ATTR_MAIN_TEXT K) w1 = (Inr o2, w2)"
    and s3: "get_uid K E item w2 = (Inr uid, w3)"
    and s4: "add_attribute_to_output E item (CONF_AUDIO K)
               (dict_setitem o2 (ATTR_UID K) (PStr uid)) (ATTR_STREAM_URL K) w3 = (Inr o4, w4)"
    and s5: "add_attribute_to_output E item (CONF_DISPLAY_URL K) o4 (ATTR_REDIRECTION_URL K) w4
               = (Inr o5, w5)"
    and out: "out = dict_setitem o5 (ATTR_UPDATE_DATE K)
                   (PStr (strftime E (utcnow E (clock_reads w5)) (DATE_FORMAT K)))"
    and w': "w' = w5\<lparr>clock_reads := Suc (clock_reads w5)\<rparr>"
    by blast
  note a1 = add_attribute_Inr [OF s1 [unfolded item], simplified]
  note a2 = add_attribute_Inr [OF s2 [unfolded item], simplified]
  note a3 = get_uid_Inr [OF s3 [unfolded item]]
  note a4 = add_attribute_Inr [OF s4 [unfolded item], simplified]
  note a5 = add_attribute_Inr [OF s5 [unfolded item], simplified]
  have r: "item_renders K E item"
    using a1 a2 a4 a5 by (simp add: item item_renders_def template_keys_def)
  have w5: "w5 = w\<lparr>uuid_draws := (if dict_get d (CONF_UID K) = PNone
                                     then Suc (uuid_draws w) else uuid_draws w),
                      rendered := rendered w @ item_templates K d\<rparr>"
    using a1 a2 a3 a4 a5 by (simp add: item_templates_def template_keys_def)
  have u: "uid = uid_of K E d w"
    using a1 a2 a3 by (simp add: uid_of_def)
  have c: "clock_reads w5 = clock_reads w"
    by (subst w5) simp
  have m1: "map_of o1 = set_field E (dict_get d (CONF_TITLE K)) (ATTR_TITLE_TEXT K) Map.empty"
    using a1 by simp
  have m2: "map_of o2 = set_field E (dict_get d (CONF_TEXT K)) (ATTR_MAIN_TEXT K) (map_of o1)"
    using a2 by simp
  have m4: "map_of o4 = set_field E (dict_get d (CONF_AUDIO K)) (ATTR_STREAM_URL K)
                          ((map_of o2)(ATTR_UID K \<mapsto> PStr uid))"
    using a4 by (simp add: dict_setitem_def update_conv')
  have m5: "map_of o5 = set_field E (dict_get d (CONF_DISPLAY_URL K)) (ATTR_REDIRECTION_URL K)
                          (map_of o4)"
    using a5 by simp
  have m: "map_of out = record_map K E d w"
    unfolding out record_map_def update_date_of_def
    by (simp only: dict_setitem_def update_conv' m5 m4 m2 m1 u c)
  have "w' = world_after K d w"
    unfolding w' c by (subst w5) (simp add: world_after_def)
  with item r m show ?thesis by simp
qed

lemma process_item_returns:
  assumes "item_renders K E item"
  shows "\<exists>out w'. process_item K E item w = (Inr out, w')"
proof -
  from assms obtain d where item: "item = PDict d"
    by (cases item) (simp_all add: item_renders_def)
  from assms have f: "field_renders E (dict_get d (CONF_TITLE K))"
    "field_renders E (dict_get d (CONF_TEXT K))"
    "field_renders E (dict_get d (CONF_AUDIO K))"
    "field_renders E (dict_get d (CONF_DISPLAY_URL K))"
    by (simp_all add: item item_renders_def template_keys_def)
  obtain o1 w1 where
    s1: "add_attribute_to_output E (PDict d) (CONF_TITLE K) [] (ATTR_TITLE_TEXT K) w = (Inr o1, w1)"
    using add_attribute_renders [OF f(1)] by blast
  obtain o2 w2 where
    s2: "add_attribute_to_output E (PDict d) (CONF_TEXT K) o1 (ATTR_MAIN_TEXT K) w1 = (Inr o2, w2)"
    using add_attribute_renders [OF f(2)] by blast
  obtain uid w3 where s3: "get_uid K E (PDict d) w2 = (Inr uid, w3)"
    by (cases "get_uid K E (PDict d) w2") (auto simp: get_uid_dict split: if_splits)
  obtain o4 w4 where
    s4: "add_attribute_to_output E (PDict d) (CONF_AUDIO K)
           (dict_setitem o2 (ATTR_UID K) (PStr uid)) (ATTR_STREAM_URL K) w3 = (Inr o4, w4)"
    using add_attribute_renders [OF f(3)] by blast
  obtain o5 w5 where
    s5: "add_attribute_to_output E (PDict d) (CONF_DISPLAY_URL K) o4 (ATTR_REDIRECTION_URL K) w4
           = (Inr o5, w5)"
    using add_attribute_renders [OF f(4)] by blast
  show ?thesis
    by (simp add: process_item_def item s1 s2 s3 s4 s5 utcnow_read_def)
qed

lemma process_item_returns_iff:
  "(\<exists>out w'. process_item K E item w = (Inr out, w')) \<longleftrightarrow> item_renders K E item"
  using process_item_returns process_item_summary by blast

lemma process_item_Inl_not_renders:
  assumes "process_item K E item w = (Inl e, w')"
  shows "\<not> item_renders K E item"
proof
  assume "item_renders K E item"
  from process_item_returns [OF this, of w] assms show False by auto
qed

lemma set_field_keeps:
  "field_renders E v \<Longrightarrow> k \<in> dom m \<Longrightarrow> k \<in> dom (set_field E v ok m)"
  using expected_field_Some [of E v] by (auto simp: set_field_def)

lemma record_map_uid_key:
  assumes "item_renders K E (PDict d)"
  shows "ATTR_UID K \<in> dom (record_map K E d w)"
proof -
  from assms have f: "field_renders E (dict_get d (CONF_AUDIO K))"
    "field_renders E (dict_get d (CONF_DISPLAY_URL K))"
    by (simp_all add: item_renders_def template_keys_def)
  let ?m = "(set_field E (dict_get d (CONF_TEXT K)) (ATTR_MAIN_TEXT K)
              (set_field E (dict_get d (CONF_TITLE K)) (ATTR_TITLE_TEXT K) Map.empty))
            (ATTR_UID K \<mapsto> PStr (uid_of K E d w))"
  have "ATTR_UID K \<in> dom ?m" by simp
  then have "ATTR_UID K \<in> dom (set_field E (dict_get d (CONF_AUDIO K)) (ATTR_STREAM_URL K) ?m)"
    by (rule set_field_keeps [OF f(1)])
  then have "ATTR_UID K \<in> dom (set_field E (dict_get d (CONF_DISPLAY_URL K))
                (ATTR_REDIRECTION_URL K)
                (set_field E (dict_get d (CONF_AUDIO K)) (ATTR_STREAM_URL K) ?m))"
    by (rule set_field_keeps [OF f(2)])
  then show ?thesis
    unfolding record_map_def by (simp only: dom_fun_upd) simp
qed

lemma process_item_keys:
  assumes "process_item K E item w = (Inr out, w')"
  shows "ATTR_UID K \<in> fst ` set out" and "ATTR_UPDATE_DATE K \<in> fst ` set out"
proof -
  from process_item_summary [OF assms] obtain d where
    d: "item = PDict d" "item_renders K E item" "map_of out = record_map K E d w"
    by blast
  have "ATTR_UID K \<in> dom (map_of out)"
    using d record_map_uid_key by simp
  then show "ATTR_UID K \<in> fst ` set out"
    by (simp add: dom_map_of_conv_image_fst)
  have "ATTR_UPDATE_DATE K \<in> dom (map_of out)"
    using d by (simp add: record_map_def)
  then show "ATTR_UPDATE_DATE K \<in> fst ` set out"
    by (simp add: dom_map_of_conv_image_fst)
qed

lemma process_item_nonempty:
  "process_item K E item w = (Inr out, w') \<Longrightarrow> out \<noteq> []"
  using process_item_keys(1) by fastforce

lemma distinct_output_keysD:
  assumes "distinct_output_keys K"
  shows "ATTR_TITLE_TEXT K \<noteq> ATTR_MAIN_TEXT K" "ATTR_MAIN_TEXT K \<noteq> ATTR_TITLE_TEXT K"
    "ATTR_TITLE_TEXT K \<noteq> ATTR_UID K" "ATTR_UID K \<noteq> ATTR_TITLE_TEXT K"
    "ATTR_TITLE_TEXT K \<noteq> ATTR_STREAM_URL K" "ATTR_STREAM_URL K \<noteq> ATTR_TITLE_TEXT K"
    "ATTR_TITLE_TEXT K \<noteq> ATTR_REDIRECTION_URL K" "ATTR_REDIRECTION_URL K \<noteq> ATTR_TITLE_TEXT K"
    "ATTR_TITLE_TEXT K \<noteq> ATTR_UPDATE_DATE K" "ATTR_UPDATE_DATE K \<noteq> ATTR_TITLE_TEXT K"
    "ATTR_MAIN_TEXT K \<noteq> ATTR_UID K" "ATTR_UID K \<noteq> ATTR_MAIN_TEXT K"
    "ATTR_MAIN_TEXT K \<noteq> ATTR_STREAM_URL K" "ATTR_STREAM_URL K \<noteq> ATTR_MAIN_TEXT K"
    "ATTR_MAIN_TEXT K \<noteq> ATTR_REDIRECTION_URL K" "ATTR_REDIRECTION_URL K \<noteq> ATTR_MAIN_TEXT K"
    "ATTR_MAIN_TEXT K \<noteq> ATTR_UPDATE_DATE K" "ATTR_UPDATE_DATE K \<noteq> ATTR_MAIN_TEXT K"
    "ATTR_UID K \<noteq> ATTR_STREAM_URL K" "ATTR_STREAM_URL K \<noteq> ATTR_UID K"
    "ATTR_UID K \<noteq> ATTR_REDIRECTION_URL K" "ATTR_REDIRECTION_URL K \<noteq> ATTR_UID K"
    "ATTR_UID K \<noteq> ATTR_UPDATE_DATE K" "ATTR_UPDATE_DATE K \<noteq> ATTR_UID K"
    "ATTR_STREAM_URL K \<noteq> ATTR_REDIRECTION_URL K" "ATTR_REDIRECTION_URL K \<noteq> ATTR_STREAM_URL K"
    "ATTR_STREAM_URL K \<noteq> ATTR_UPDATE_DATE K" "ATTR_UPDATE_DATE K \<noteq> ATTR_STREAM_URL K"
    "ATTR_REDIRECTION_URL K \<noteq> ATTR_UPDATE_DATE K" "ATTR_UPDATE_DATE K \<noteq> ATTR_REDIRECTION_URL K"
  using assms by (auto simp: distinct_output_keys_def output_keys_def)

lemma record_map_update_date:
  "record_map K E d w (ATTR_UPDATE_DATE K) = Some (PStr (update_date_of K E w))"
  by (simp add: record_map_def)

lemma record_map_uid:
  assumes "distinct_output_keys K"
  shows "record_map K E d w (ATTR_UID K) = Some (PStr (uid_of K E d w))"
  by (simp add: record_map_def set_field_def distinct_output_keysD [OF assms])

lemma record_map_field:
  assumes "distinct_output_keys K" and "(ck, ok) \<in> set (field_keys K)"
  shows "record_map K E d w ok = (if dict_get d ck = PNone then None
                                   else expected_field E (dict_get d ck))"
proof -
  from assms(2) consider
      "ck = CONF_TITLE K" "ok = ATTR_TITLE_TEXT K"
    | "ck = CONF_TEXT K" "ok = ATTR_MAIN_TEXT K"
    | "ck = CONF_AUDIO K" "ok = ATTR_STREAM_URL K"
    | "ck = CONF_DISPLAY_URL K" "ok = ATTR_REDIRECTION_URL K"
    by (auto simp: field_keys_def)
  then show ?thesis
  proof cases
    case 1
    then show ?thesis
      by (simp add: record_map_def set_field_def distinct_output_keysD [OF assms(1)])
  next
    case 2
    then show ?thesis
      by (simp add: record_map_def set_field_def distinct_output_keysD [OF assms(1)])
  next
    case 3
    then show ?thesis
      by (simp add: record_map_def set_field_def distinct_output_keysD [OF assms(1)])
  next
    case 4
    then show ?thesis
      by (simp add: record_map_def set_field_def distinct_output_keysD [OF assms(1)])
  qed
qed

lemma process_item_total:
  assumes "item_renders K E (PDict d)"
  shows "\<exists>out. process_item K E (PDict d) w = (Inr out, world_after K d w)
               \<and> map_of out = record_map K E d w"
proof -
  from process_item_returns [OF assms] obtain out w' where
    p: "process_item K E (PDict d) w = (Inr out, w')" by blast
  from process_item_summary [OF p] have "map_of out = record_map K E d w" "w' = world_after K d w"
    by simp_all
  with p show ?thesis by simp
qed

lemma process_item_cong:
  assumes "\<And>k. dict_get d k = dict_get d' k"
  shows "process_item K E (PDict d) w = process_item K E (PDict d') w"
proof -
  have a: "add_attribute_to_output E (PDict d) = add_attribute_to_output E (PDict d')"
    by (intro ext) (simp add: add_attribute_dict assms)
  have g: "get_uid K E (PDict d) = get_uid K E (PDict d')"
    by (intro ext) (simp add: get_uid_dict assms)
  show ?thesis
    unfolding process_item_def a g by (rule refl)
qed

lemma dict_get_None_delete:
  "dict_get (dict_setitem d k PNone) k' = dict_get (AList.delete k d) k'"
  by (simp add: dict_get_def dict_setitem_def update_conv' delete_conv')

subsection \<open>The loop over the items\<close>

lemma briefing_loop_Inr:
  assumes "briefing_loop K E items acc w = (Inr res, w')"
  shows "\<exists>recs. res = acc @ recs
           \<and> list_all2 (\<lambda>item rec. \<exists>u u'. process_item K E item u = (Inr rec, u')) items recs"
  using assms
proof (induction items arbitrary: acc w)
  case Nil
  then show ?case by simp
next
  case (Cons item items)
  from Cons.prems obtain out w1 where
    p: "process_item K E item w = (Inr out, w1)"
    and l: "briefing_loop K E items (if out \<noteq> [] then acc @ [out] else acc) w1 = (Inr res, w')"
    by (auto split: prod.splits sum.splits)
  have "out \<noteq> []" using p by (rule process_item_nonempty)
  with l have "briefing_loop K E items (acc @ [out]) w1 = (Inr res, w')" by simp
  from Cons.IH [OF this] obtain recs where
    "res = (acc @ [out]) @ recs"
    "list_all2 (\<lambda>item rec. \<exists>u u'. process_item K E item u = (Inr rec, u')) items recs"
    by blast
  with p show ?case
    by (intro exI [of _ "out # recs"]) auto
qed

lemma briefing_loop_returns:
  assumes "list_all (item_renders K E) items"
  shows "\<exists>res w'. briefing_loop K E items acc w = (Inr res, w')"
  using assms
proof (induction items arbitrary: acc w)
  case Nil
  then show ?case by simp
next
  case (Cons item items)
  from Cons.prems have "item_renders K E item" and rest: "list_all (item_renders K E) items"
    by simp_all
  then obtain out w1 where p: "process_item K E item w = (Inr out, w1)"
    using process_item_returns by blast
  from Cons.IH [OF rest] show ?case
    by (simp add: p)
qed

lemma briefing_loop_Inr_renders:
  assumes "briefing_loop K E items acc w = (Inr res, w')"
  shows "list_all (item_renders K E) items"
proof -
  from briefing_loop_Inr [OF assms] obtain recs where
    "list_all2 (\<lambda>item rec. \<exists>u u'. process_item K E item u = (Inr rec, u')) items recs"
    by blast
  then have "list_all2 (\<lambda>item rec. item_renders K E item) items recs"
    by (rule list_all2_mono) (use process_item_returns_iff in blast)
  then show ?thesis
    by (induction rule: list_all2_induct) simp_all
qed

lemma briefing_loop_result:
  "\<exists>res w'. briefing_loop K E items acc w = (res, w')"
  by (cases "briefing_loop K E items acc w") simp

lemma briefing_loop_Inl_split:
  assumes "briefing_loop K E items acc w = (Inl e, w')"
  shows "\<exists>pre it post res w1. items = pre @ it # post
           \<and> briefing_loop K E pre acc w = (Inr res, w1)
           \<and> process_item K E it w1 = (Inl e, w')"
  using assms
proof (induction items arbitrary: acc w)
  case Nil
  then show ?case by simp
next
  case (Cons item items)
  show ?case
  proof (cases "process_item K E item w")
    case (Pair res w1)
    show ?thesis
    proof (cases res)
      case (Inl e')
      with Pair Cons.prems have "process_item K E item w = (Inl e, w')" by simp
      moreover have "briefing_loop K E [] acc w = (Inr acc, w)" by simp
      ultimately show ?thesis by (metis append_Nil)
    next
      case (Inr out)
      let ?acc = "if out \<noteq> [] then acc @ [out] else acc"
      from Pair Inr Cons.prems have "briefing_loop K E items ?acc w1 = (Inl e, w')" by simp
      from Cons.IH [OF this] obtain pre it post res' w2 where
        i: "items = pre @ it # post"
        and l: "briefing_loop K E pre ?acc w1 = (Inr res', w2)"
        and p: "process_item K E it w2 = (Inl e, w')"
        by blast
      from Pair Inr l have "briefing_loop K E (item # pre) acc w = (Inr res', w2)" by simp
      moreover from i have "item # items = (item # pre) @ it # post" by simp
      ultimately show ?thesis using p by blast
    qed
  qed
qed

subsection \<open>Password validation and the handler\<close>

lemma validate_password_verdict:
  "fst (validate_password K fb r w) = fst (validate_password K fb r w')"
  by (simp add: validate_password_def split: sum.splits)

lemma validate_password_only_logs:
  "validate_password K fb r w = (v, w') \<Longrightarrow> only_logged w w'"
  by (auto simp: validate_password_def only_logged_def logger_def split: sum.splits if_splits)

lemma validate_password_missing:
  assumes "API_PASSWORD K \<notin> fst ` set (query r)"
  shows "validate_password K fb r w =
           (Inr False, logger ERROR ''No password provided for Alexa flash briefing'' [] w)"
proof -
  from assms have "query_get r (API_PASSWORD K) = None"
    by (simp add: query_get_def map_of_eq_None_iff)
  then show ?thesis by (simp add: validate_password_def)
qed

lemma validate_password_configured:
  assumes "map_of fb (CONF_PASSWORD K) = Some (PStr pw)"
  shows "validate_password K fb r w =
           (case query_get r (API_PASSWORD K) of
              None \<Rightarrow>
                (Inr False, logger ERROR ''No password provided for Alexa flash briefing'' [] w)
            | Some supplied \<Rightarrow>
                if supplied = pw then (Inr True, w)
                else (Inr False, logger ERROR ''Wrong password for Alexa flash briefing'' [] w))"
  using assms compare_digest_encode
  by (auto simp: validate_password_def query_get_def query_getitem_def dict_getitem_def
      split: option.splits)

lemma isinstance_list_iff: "isinstance_list v \<longleftrightarrow> (\<exists>xs. v = PList xs)"
  by (cases v) simp_all

lemma get_after_validation:
  assumes "fst (validate_password K fb r w) = Inr True"
  shows "get K E fb r bid w =
     (let w0 = logger DEBUG ''Received Alexa flash briefing request for: %s'' [bid] w
      in case is_valid_briefing fb bid w0 of
           (valid, w2) \<Rightarrow>
             if \<not> valid then (Inr (Body_Status [] HTTP_NOT_FOUND), w2)
             else
               (case py_iter (dict_get_default fb bid (PList [])) of
                  Inl e \<Rightarrow> (Inl e, w2)
                | Inr items \<Rightarrow>
                    (case briefing_loop K E items [] w2 of
                       (Inl e, w3) \<Rightarrow> (Inl e, w3)
                     | (Inr briefing, w3) \<Rightarrow> (Inr (json briefing), w3))))"
proof -
  let ?w0 = "logger DEBUG ''Received Alexa flash briefing request for: %s'' [bid] w"
  have "fst (validate_password K fb r ?w0) = Inr True"
    using assms validate_password_verdict [of K fb r ?w0 w] by simp
  moreover have "validate_password K fb r ?w0 = (Inr True, w1) \<Longrightarrow> w1 = ?w0" for w1
    by (auto simp: validate_password_def split: sum.splits if_splits)
  ultimately have "validate_password K fb r ?w0 = (Inr True, ?w0)"
    by (cases "validate_password K fb r ?w0") auto
  then show ?thesis
    by (simp add: get_def Let_def)
qed

lemma get_after_failed_validation:
  assumes "fst (validate_password K fb r w) = Inr False"
  shows "\<exists>w'. get K E fb r bid w = (Inr (Body_Status [] HTTP_UNAUTHORIZED), w') \<and> only_logged w w'"
proof -
  let ?w0 = "logger DEBUG ''Received Alexa flash briefing request for: %s'' [bid] w"
  have "fst (validate_password K fb r ?w0) = Inr False"
    using assms validate_password_verdict [of K fb r ?w0 w] by simp
  then obtain w1 where v: "validate_password K fb r ?w0 = (Inr False, w1)"
    by (cases "validate_password K fb r ?w0") auto
  from validate_password_only_logs [OF v] have "only_logged w w1"
    by (simp add: only_logged_def logger_def)
  with v show ?thesis
    by (simp add: get_def Let_def)
qed

lemma get_list_briefing:
  assumes "fst (validate_password K fb r w) = Inr True"
    and "map_of fb bid = Some (PList items)"
  shows "get K E fb r bid w =
     (case briefing_loop K E items []
             (logger DEBUG ''Received Alexa flash briefing request for: %s'' [bid] w) of
        (Inl e, w3) \<Rightarrow> (Inl e, w3)
      | (Inr briefing, w3) \<Rightarrow> (Inr (json briefing), w3))"
  using assms(2)
  by (simp add: get_after_validation [OF assms(1)] is_valid_briefing_def dict_get_def
      dict_get_default_def Let_def)

lemma get_not_list_briefing:
  assumes "fst (validate_password K fb r w) = Inr True"
    and "\<not> isinstance_list (dict_get fb bid)"
  shows "get K E fb r bid w =
     (Inr (Body_Status [] HTTP_NOT_FOUND),
      logger ERROR ''No configured Alexa flash briefing was found for: %s'' [bid]
        (logger DEBUG ''Received Alexa flash briefing request for: %s'' [bid] w))"
  using assms(2)
  by (simp add: get_after_validation [OF assms(1)] is_valid_briefing_def Let_def)

lemma get_Json_Response:
  assumes "get K E fb r bid w = (Inr (Json_Response recs st), w')"
  shows "\<exists>items. map_of fb bid = Some (PList items) \<and> st = HTTP_OK
           \<and> fst (validate_password K fb r w) = Inr True
           \<and> briefing_loop K E items []
                 (logger DEBUG ''Received Alexa flash briefing request for: %s'' [bid] w)
               = (Inr recs, w')"
proof -
  let ?w0 = "logger DEBUG ''Received Alexa flash briefing request for: %s'' [bid] w"
  from assms obtain w1 where v: "validate_password K fb r ?w0 = (Inr True, w1)"
    by (auto simp: get_def Let_def split: prod.splits sum.splits if_splits)
  then have t: "fst (validate_password K fb r w) = Inr True"
    using validate_password_verdict [of K fb r w ?w0] by simp
  have l: "isinstance_list (dict_get fb bid)"
    using assms
    by (auto simp: get_after_validation [OF t] Let_def is_valid_briefing_def split: if_splits)
  then obtain items where i: "map_of fb bid = Some (PList items)"
    by (auto simp: isinstance_list_iff dict_get_def split: option.splits)
  from assms have "briefing_loop K E items [] ?w0 = (Inr recs, w')" and "st = HTTP_OK"
    by (auto simp: get_list_briefing [OF t i] json_def split: prod.splits sum.splits)
  with i t show ?thesis by simp
qed

lemma get_rendering_briefing:
  assumes "fst (validate_password K fb r w) = Inr True"
    and "map_of fb bid = Some (PList items)"
    and "list_all (item_renders K E) items"
  shows "\<exists>recs w'. get K E fb r bid w = (Inr (Json_Response recs HTTP_OK), w')
           \<and> list_all2 (\<lambda>item rec. \<exists>u u'. process_item K E item u = (Inr rec, u')) items recs"
proof -
  let ?w0 = "logger DEBUG ''Received Alexa flash briefing request for: %s'' [bid] w"
  from briefing_loop_returns [OF assms(3)] obtain recs w' where
    l: "briefing_loop K E items [] ?w0 = (Inr recs, w')"
    by blast
  from briefing_loop_Inr [OF l] have
    "list_all2 (\<lambda>item rec. \<exists>u u'. process_item K E item u = (Inr rec, u')) items recs"
    by simp
  moreover have "get K E fb r bid w = (Inr (Json_Response recs HTTP_OK), w')"
    by (simp add: get_list_briefing [OF assms(1,2)] l json_def)
  ultimately show ?thesis by blast
qed

text \<open>
  A supplied password that differs from the configured one is refused with status 401 and
  the empty body. How long \<^verbatim>\<open>hmac.compare_digest\<close> takes is outside this model, which
  records only what the comparison returns.
\<close>

lemma get_wrong_password:
  assumes "query_get r (API_PASSWORD K) = Some supplied"
    and "map_of fb (CONF_PASSWORD K) = Some (PStr pw)"
    and "supplied \<noteq> pw"
  shows "get K E fb r bid w =
           (Inr (Body_Status [] HTTP_UNAUTHORIZED),
            logger ERROR ''Wrong password for Alexa flash briefing'' []
              (logger DEBUG ''Received Alexa flash briefing request for: %s'' [bid] w))"
  using assms(1,3)
  by (simp add: get_def Let_def validate_password_configured [OF assms(2)])

subsection \<open>Evaluation on concrete inputs\<close>

lemmas model_defs =
  get_def validate_password_def is_valid_briefing_def process_item_def
  add_attribute_to_output_def get_uid_def async_render_def uuid4_def utcnow_read_def
  logger_def json_def query_get_def query_getitem_def dict_get_def dict_get_default_def
  dict_getitem_def dict_setitem_def compare_digest_def
  HTTP_OK_def HTTP_UNAUTHORIZED_def HTTP_NOT_FOUND_def

lemmas sample_defs =
  alexa_constants_def sample_env_def start_world_def news_config_def secret_request_def
  failing_config_def half_failing_config_def two_item_config_def greeting_item_def
  repeating_env_def

lemmas str_defs = str_int_def str_nat.simps digit_char_def

lemma distinct_alexa_constants: "distinct_output_keys alexa_constants"
  by (simp add: distinct_output_keys_def output_keys_def alexa_constants_def)

section \<open>The claims\<close>

subsection \<open>The response to a valid request\<close>

text \<open>
  C1, as amended. Let a request pass the password validation and name a briefing
  identifier whose value in the configuration is a list of \<open>N\<close> items, every item being
  a dict whose template-valued title, text, audio and display-URL values render without
  failure. Then the handler returns the response of \<^verbatim>\<open>self.json\<close> with status 200 for a
  list of exactly \<open>N\<close> records; the \<open>i\<close>-th record is the transform of the \<open>i\<close>-th item,
  and every record has the keys \<^verbatim>\<open>ATTR_UID\<close> and \<^verbatim>\<open>ATTR_UPDATE_DATE\<close>.
\<close>

theorem get_valid_briefing:
  assumes "fst (validate_password K fb r w) = Inr True"
    and "map_of fb bid = Some (PList items)"
    and "list_all (item_renders K E) items"
  shows "\<exists>recs w'. get K E fb r bid w = (Inr (Json_Response recs HTTP_OK), w')
           \<and> length recs = length items
           \<and> list_all2 (\<lambda>item rec. \<exists>u u'. process_item K E item u = (Inr rec, u')) items recs
           \<and> (\<forall>rec \<in> set recs. ATTR_UID K \<in> fst ` set rec \<and> ATTR_UPDATE_DATE K \<in> fst ` set rec)"
proof -
  from get_rendering_briefing [OF assms] obtain recs w' where
    g: "get K E fb r bid w = (Inr (Json_Response recs HTTP_OK), w')"
    and a: "list_all2 (\<lambda>item rec. \<exists>u u'. process_item K E item u = (Inr rec, u')) items recs"
    by blast
  from a have n: "length recs = length items"
    by (simp add: list_all2_lengthD)
  have k: "ATTR_UID K \<in> fst ` set rec \<and> ATTR_UPDATE_DATE K \<in> fst ` set rec"
    if "rec \<in> set recs" for rec
  proof -
    from that a obtain item u u' where "process_item K E item u = (Inr rec, u')"
      by (auto simp: list_all2_conv_all_nth in_set_conv_nth)
    then show ?thesis
      using process_item_keys by blast
  qed
  from g a n k show ?thesis by blast
qed

theorem get_valid_briefing_witness:
  "fst (validate_password alexa_constants news_config secret_request start_world) = Inr True
   \<and> map_of news_config ''news''
       = Some (PList [PDict [(''title'', PStr ''Static''), (''text'', PStr ''Body''),
                             (''uid'', PStr ''abc-1'')]])
   \<and> list_all (item_renders alexa_constants sample_env)
         [PDict [(''title'', PStr ''Static''), (''text'', PStr ''Body''),
                 (''uid'', PStr ''abc-1'')]]
   \<and> get alexa_constants sample_env news_config secret_request ''news'' start_world
       = (Inr (Json_Response
                [[(''titleText'', PStr ''Static''), (''mainText'', PStr ''Body''),
                  (''uid'', PStr ''abc-1''),
                  (''updateDate'', PStr ''%Y-%m-%dT%H:%M:%S.0Z'')]] 200),
          \<lparr>uuid_draws = 0, clock_reads = 1, rendered = [],
           logged = [(DEBUG, ''Received Alexa flash briefing request for: %s'', [''news''])]\<rparr>)"
proof -
  let ?items = "[PDict [(''title'', PStr ''Static''), (''text'', PStr ''Body''),
                        (''uid'', PStr ''abc-1'')]]"
  have v: "fst (validate_password alexa_constants news_config secret_request start_world)
             = Inr True"
    by (simp add: model_defs sample_defs)
  have m: "map_of news_config ''news'' = Some (PList ?items)"
    by (simp add: news_config_def)
  have r: "list_all (item_renders alexa_constants sample_env) ?items"
    by (simp add: item_renders_def field_renders_def template_keys_def dict_get_def
        alexa_constants_def)
  show ?thesis
    using v m r get_valid_briefing [OF v m r]
    by (simp add: model_defs sample_defs)
qed

text \<open>
  The claim without the condition on the templates fails: the request below passes the
  password validation and names a briefing with one item, the title of the item is a
  template whose rendering fails, and the handler ends with that exception instead of a
  response.
\<close>

theorem get_template_failure_counterexample:
  "fst (validate_password alexa_constants failing_config secret_request start_world) = Inr True
   \<and> map_of failing_config ''news'' = Some (PList [PDict [(''title'', PTemplate ''{{ 1 / 0 }}'')]])
   \<and> get alexa_constants sample_env failing_config secret_request ''news'' start_world
       = (Inl (TemplateError ''{{ 1 / 0 }}''),
          \<lparr>uuid_draws = 0, clock_reads = 0, rendered = [''{{ 1 / 0 }}''],
           logged = [(DEBUG, ''Received Alexa flash briefing request for: %s'', [''news''])]\<rparr>)"
  by (simp add: model_defs sample_defs)

subsection \<open>Requests that are refused\<close>

text \<open>
  C2. When the query of a request has no \<^verbatim>\<open>api_password\<close> parameter, the handler
  returns the empty body with status 401. The configuration is not consulted and no item
  is transformed: the result is the same for every configuration, environment and
  briefing identifier, and the world differs from the one before the call by two log
  records only.
\<close>

theorem get_missing_password:
  assumes "API_PASSWORD K \<notin> fst ` set (query r)"
  shows "get K E fb r bid w =
           (Inr (Body_Status [] HTTP_UNAUTHORIZED),
            logger ERROR ''No password provided for Alexa flash briefing'' []
              (logger DEBUG ''Received Alexa flash briefing request for: %s'' [bid] w))
         \<and> only_logged w (snd (get K E fb r bid w))"
proof -
  have "get K E fb r bid w =
           (Inr (Body_Status [] HTTP_UNAUTHORIZED),
            logger ERROR ''No password provided for Alexa flash briefing'' []
              (logger DEBUG ''Received Alexa flash briefing request for: %s'' [bid] w))"
    by (simp add: get_def Let_def validate_password_missing [OF assms])
  then show ?thesis
    by (simp add: only_logged_def logger_def)
qed

theorem get_missing_password_witness:
  "API_PASSWORD alexa_constants \<notin> fst ` set (query \<lparr>query = [(''other'', ''secret'')]\<rparr>)
   \<and> get alexa_constants sample_env news_config \<lparr>query = [(''other'', ''secret'')]\<rparr> ''news''
         start_world =
       (Inr (Body_Status [] 401),
        \<lparr>uuid_draws = 0, clock_reads = 0, rendered = [],
         logged = [(DEBUG, ''Received Alexa flash briefing request for: %s'', [''news'']),
                   (ERROR, ''No password provided for Alexa flash briefing'', [])]\<rparr>)"
proof -
  have h: "API_PASSWORD alexa_constants \<notin> fst ` set (query \<lparr>query = [(''other'', ''secret'')]\<rparr>)"
    by (simp add: alexa_constants_def)
  show ?thesis
    using h get_missing_password [OF h, of sample_env news_config "''news''" start_world]
    by (simp add: logger_def start_world_def HTTP_UNAUTHORIZED_def)
qed

text \<open>
  C4. When the request carries the configured password and the briefing identifier is
  either no key of the configuration or the key of a value that is not a list, the
  handler returns the empty body with status 404.
\<close>

theorem get_unknown_briefing:
  assumes "query_get r (API_PASSWORD K) = Some pw"
    and "map_of fb (CONF_PASSWORD K) = Some (PStr pw)"
    and "map_of fb bid = None \<or> (\<exists>v. map_of fb bid = Some v \<and> \<not> isinstance_list v)"
  shows "get K E fb r bid w =
           (Inr (Body_Status [] HTTP_NOT_FOUND),
            logger ERROR ''No configured Alexa flash briefing was found for: %s'' [bid]
              (logger DEBUG ''Received Alexa flash briefing request for: %s'' [bid] w))"
proof -
  have v: "fst (validate_password K fb r w) = Inr True"
    by (simp add: validate_password_configured [OF assms(2)] assms(1))
  have "\<not> isinstance_list (dict_get fb bid)"
    using assms(3) by (auto simp: dict_get_def)
  with v show ?thesis by (rule get_not_list_briefing)
qed

text \<open>
  The witness takes the configuration of the spec's example with the right password,
  once for an identifier that is no key and once for the key \<^verbatim>\<open>password\<close>, whose
  value is a string.
\<close>

theorem get_unknown_briefing_witness:
  "get alexa_constants sample_env news_config \<lparr>query = [(''api_password'', ''secret'')]\<rparr>
      ''unknown'' start_world =
     (Inr (Body_Status [] 404),
      \<lparr>uuid_draws = 0, clock_reads = 0, rendered = [],
       logged = [(DEBUG, ''Received Alexa flash briefing request for: %s'', [''unknown'']),
                 (ERROR, ''No configured Alexa flash briefing was found for: %s'',
                  [''unknown''])]\<rparr>)
   \<and> get alexa_constants sample_env news_config \<lparr>query = [(''api_password'', ''secret'')]\<rparr>
      ''password'' start_world =
     (Inr (Body_Status [] 404),
      \<lparr>uuid_draws = 0, clock_reads = 0, rendered = [],
       logged = [(DEBUG, ''Received Alexa flash briefing request for: %s'', [''password'']),
                 (ERROR, ''No configured Alexa flash briefing was found for: %s'',
                  [''password''])]\<rparr>)"
proof -
  let ?r = "\<lparr>query = [(''api_password'', ''secret'')]\<rparr>"
  have q: "query_get ?r (API_PASSWORD alexa_constants) = Some ''secret''"
    by (simp add: query_get_def alexa_constants_def)
  have p: "map_of news_config (CONF_PASSWORD alexa_constants) = Some (PStr ''secret'')"
    by (simp add: news_config_def alexa_constants_def)
  have a: "map_of news_config ''unknown'' = None
           \<or> (\<exists>v. map_of news_config ''unknown'' = Some v \<and> \<not> isinstance_list v)"
    by (simp add: news_config_def)
  have b: "map_of news_config ''password'' = None
           \<or> (\<exists>v. map_of news_config ''password'' = Some v \<and> \<not> isinstance_list v)"
    by (simp add: news_config_def)
  show ?thesis
    using get_unknown_briefing [OF q p a, of sample_env start_world]
      get_unknown_briefing [OF q p b, of sample_env start_world]
    by (simp add: logger_def start_world_def HTTP_NOT_FOUND_def)
qed

subsection \<open>The transform of an item\<close>

text \<open>
  C5, as amended. Let the six output keys be pairwise different and let \<open>d\<close> be a dict
  whose templates render. Then \<^verbatim>\<open>process_item\<close> returns a record, it has rendered
  exactly the templates of \<open>d\<close>, in the order title, text, audio, display URL, and for each
  of the four pairs of a configuration key and its output key: if the configuration key
  is absent from \<open>d\<close> or set to \<^verbatim>\<open>None\<close> the record lacks the output key; if its value is
  a template the record holds the rendered text, a string; every other value is in the
  record unchanged.
\<close>

theorem process_item_fields:
  assumes "distinct_output_keys K" and "item_renders K E (PDict d)"
  shows "\<exists>out w'. process_item K E (PDict d) w = (Inr out, w')
           \<and> rendered w' = rendered w @ item_templates K d
           \<and> (\<forall>(ck, ok) \<in> set (field_keys K).
                 (map_of d ck = None \<or> map_of d ck = Some PNone \<longrightarrow> map_of out ok = None)
               \<and> (\<forall>t. map_of d ck = Some (PTemplate t) \<longrightarrow>
                      (\<exists>s. render_text E t = Inr s \<and> map_of out ok = Some (PStr s)))
               \<and> (\<forall>v. map_of d ck = Some v \<and> v \<noteq> PNone \<and> (\<forall>t. v \<noteq> PTemplate t) \<longrightarrow>
                      map_of out ok = Some v))"
proof -
  from process_item_total [OF assms(2)] obtain out where
    p: "process_item K E (PDict d) w = (Inr out, world_after K d w)"
    and m: "map_of out = record_map K E d w"
    by blast
  have "(map_of d ck = None \<or> map_of d ck = Some PNone \<longrightarrow> map_of out ok = None)
      \<and> (\<forall>t. map_of d ck = Some (PTemplate t) \<longrightarrow>
             (\<exists>s. render_text E t = Inr s \<and> map_of out ok = Some (PStr s)))
      \<and> (\<forall>v. map_of d ck = Some v \<and> v \<noteq> PNone \<and> (\<forall>t. v \<noteq> PTemplate t) \<longrightarrow>
             map_of out ok = Some v)"
    if f: "(ck, ok) \<in> set (field_keys K)" for ck ok
  proof -
    from f have "ck \<in> set (template_keys K)"
      by (auto simp: field_keys_def template_keys_def)
    with assms(2) have r: "field_renders E (dict_get d ck)"
      by (simp add: item_renders_def list_all_iff)
    have l: "map_of out ok = (if dict_get d ck = PNone then None
                              else expected_field E (dict_get d ck))"
      by (simp add: m record_map_field [OF assms(1) f])
    show ?thesis
      using r unfolding l
      by (auto simp: dict_get_def expected_field_def field_renders_def
          split: pyval.splits sum.splits)
  qed
  with p show ?thesis
    by (auto simp: world_after_def)
qed

theorem process_item_fields_witness:
  "distinct_output_keys alexa_constants
   \<and> item_renders alexa_constants sample_env (PDict greeting_item)
   \<and> process_item alexa_constants sample_env (PDict greeting_item) start_world
       = (Inr [(''titleText'', PStr ''Hello''), (''mainText'', PStr ''Body''),
               (''uid'', PStr ''uuid4-''), (''redirectionURL'', PInt 7),
               (''updateDate'', PStr ''%Y-%m-%dT%H:%M:%S.0Z'')],
          \<lparr>uuid_draws = 1, clock_reads = 1, rendered = [''{{ greeting }}''], logged = []\<rparr>)"
proof -
  have r: "item_renders alexa_constants sample_env (PDict greeting_item)"
    by (simp add: item_renders_def field_renders_def template_keys_def dict_get_def sample_defs)
  show ?thesis
    using r distinct_alexa_constants
      process_item_fields [OF distinct_alexa_constants r, of start_world]
    by (simp add: model_defs sample_defs)
qed

text \<open>
  The claim as it stands, with its last case covering every value that is present in the
  item and is no template, fails: the title below is present in the item, it is the
  literal \<^verbatim>\<open>None\<close>, and the record has no title key at all, let alone one with the
  value \<^verbatim>\<open>None\<close>.
\<close>

theorem process_item_none_title_counterexample:
  "map_of [(''title'', PNone)] (CONF_TITLE alexa_constants) = Some PNone
   \<and> process_item alexa_constants sample_env (PDict [(''title'', PNone)]) start_world
       = (Inr [(''uid'', PStr ''uuid4-''), (''updateDate'', PStr ''%Y-%m-%dT%H:%M:%S.0Z'')],
          \<lparr>uuid_draws = 1, clock_reads = 1, rendered = [], logged = []\<rparr>)
   \<and> map_of [(''uid'', PStr ''uuid4-''), (''updateDate'', PStr ''%Y-%m-%dT%H:%M:%S.0Z'')]
         (ATTR_TITLE_TEXT alexa_constants) = None"
  by (simp add: model_defs sample_defs)

text \<open>
  C6, as amended. Let the six output keys be pairwise different and let \<open>d\<close> be a dict
  whose templates render, which are the dicts for which \<^verbatim>\<open>process_item\<close> returns a
  record. If \<open>d\<close> has a UID (a value other than \<^verbatim>\<open>None\<close> under \<^verbatim>\<open>CONF_UID\<close>), the
  record holds \<^verbatim>\<open>str\<close> of that value under \<^verbatim>\<open>ATTR_UID\<close> and no UUID is drawn, so every
  later invocation yields the same UID. If \<open>d\<close> has no UID, the record holds the
  \<^verbatim>\<open>str\<close> of the UUID that this invocation draws, and exactly one UUID is drawn; a later
  invocation therefore takes its UID from a later call of \<^verbatim>\<open>uuid.uuid4\<close>, and the two
  UIDs are different exactly when those two calls returned different UUIDs.
\<close>

theorem process_item_uid:
  assumes "distinct_output_keys K" and "item_renders K E (PDict d)"
  shows "\<exists>out w'. process_item K E (PDict d) w = (Inr out, w')
           \<and> (dict_get d (CONF_UID K) \<noteq> PNone \<longrightarrow>
                 map_of out (ATTR_UID K) = Some (PStr (py_str E (dict_get d (CONF_UID K))))
               \<and> uuid_draws w' = uuid_draws w)
           \<and> (dict_get d (CONF_UID K) = PNone \<longrightarrow>
                 map_of out (ATTR_UID K) = Some (PStr (uuid4_str E (uuid_draws w)))
               \<and> uuid_draws w' = Suc (uuid_draws w))
           \<and> (\<forall>v out2 v'. uuid_draws w' \<le> uuid_draws v
                   \<and> process_item K E (PDict d) v = (Inr out2, v') \<longrightarrow>
                 (dict_get d (CONF_UID K) \<noteq> PNone \<longrightarrow>
                    map_of out2 (ATTR_UID K) = map_of out (ATTR_UID K))
               \<and> (dict_get d (CONF_UID K) = PNone \<longrightarrow>
                    uuid_draws w < uuid_draws v
                  \<and> map_of out2 (ATTR_UID K) = Some (PStr (uuid4_str E (uuid_draws v)))
                  \<and> (map_of out2 (ATTR_UID K) = map_of out (ATTR_UID K)
                       \<longleftrightarrow> uuid4_str E (uuid_draws v) = uuid4_str E (uuid_draws w))))"
proof -
  from process_item_total [OF assms(2)] obtain out where
    p: "process_item K E (PDict d) w = (Inr out, world_after K d w)"
    and m: "map_of out = record_map K E d w"
    by blast
  have u: "map_of out (ATTR_UID K) = Some (PStr (uid_of K E d w))"
    by (simp add: m record_map_uid [OF assms(1)])
  have second: "(dict_get d (CONF_UID K) \<noteq> PNone \<longrightarrow>
                    map_of out2 (ATTR_UID K) = map_of out (ATTR_UID K))
               \<and> (dict_get d (CONF_UID K) = PNone \<longrightarrow>
                    uuid_draws w < uuid_draws v
                  \<and> map_of out2 (ATTR_UID K) = Some (PStr (uuid4_str E (uuid_draws v)))
                  \<and> (map_of out2 (ATTR_UID K) = map_of out (ATTR_UID K)
                       \<longleftrightarrow> uuid4_str E (uuid_draws v) = uuid4_str E (uuid_draws w)))"
    if later: "uuid_draws (world_after K d w) \<le> uuid_draws v"
      and q: "process_item K E (PDict d) v = (Inr out2, v')" for v out2 v'
  proof -
    from process_item_summary [OF q] have "map_of out2 = record_map K E d v"
      by simp
    then have u2: "map_of out2 (ATTR_UID K) = Some (PStr (uid_of K E d v))"
      by (simp add: record_map_uid [OF assms(1)])
    have "uuid_draws w < uuid_draws v" if "dict_get d (CONF_UID K) = PNone"
      using later that by (simp add: world_after_def)
    then show ?thesis
      unfolding u u2 by (simp add: uid_of_def)
  qed
  have first: "(dict_get d (CONF_UID K) \<noteq> PNone \<longrightarrow>
                 map_of out (ATTR_UID K) = Some (PStr (py_str E (dict_get d (CONF_UID K))))
               \<and> uuid_draws (world_after K d w) = uuid_draws w)
           \<and> (dict_get d (CONF_UID K) = PNone \<longrightarrow>
                 map_of out (ATTR_UID K) = Some (PStr (uuid4_str E (uuid_draws w)))
               \<and> uuid_draws (world_after K d w) = Suc (uuid_draws w))"
    by (simp add: u uid_of_def world_after_def)
  from p first second show ?thesis by blast
qed

theorem process_item_uid_witness:
  "distinct_output_keys alexa_constants
   \<and> item_renders alexa_constants sample_env (PDict [(''uid'', PStr ''abc-1'')])
   \<and> process_item alexa_constants sample_env (PDict [(''uid'', PStr ''abc-1'')]) start_world
       = (Inr [(''uid'', PStr ''abc-1''), (''updateDate'', PStr ''%Y-%m-%dT%H:%M:%S.0Z'')],
          \<lparr>uuid_draws = 0, clock_reads = 1, rendered = [], logged = []\<rparr>)
   \<and> process_item alexa_constants sample_env (PDict [(''uid'', PStr ''abc-1'')])
         \<lparr>uuid_draws = 0, clock_reads = 1, rendered = [], logged = []\<rparr>
       = (Inr [(''uid'', PStr ''abc-1''), (''updateDate'', PStr ''%Y-%m-%dT%H:%M:%S.0Z+'')],
          \<lparr>uuid_draws = 0, clock_reads = 2, rendered = [], logged = []\<rparr>)
   \<and> item_renders alexa_constants sample_env (PDict [(''uid'', PInt 2024)])
   \<and> process_item alexa_constants sample_env (PDict [(''uid'', PInt 2024)]) start_world
       = (Inr [(''uid'', PStr ''2024''), (''updateDate'', PStr ''%Y-%m-%dT%H:%M:%S.0Z'')],
          \<lparr>uuid_draws = 0, clock_reads = 1, rendered = [], logged = []\<rparr>)
   \<and> item_renders alexa_constants sample_env (PDict [(''uid'', PBool True)])
   \<and> process_item alexa_constants sample_env (PDict [(''uid'', PBool True)]) start_world
       = (Inr [(''uid'', PStr ''True''), (''updateDate'', PStr ''%Y-%m-%dT%H:%M:%S.0Z'')],
          \<lparr>uuid_draws = 0, clock_reads = 1, rendered = [], logged = []\<rparr>)
   \<and> item_renders alexa_constants sample_env (PDict [])
   \<and> process_item alexa_constants sample_env (PDict []) start_world
       = (Inr [(''uid'', PStr ''uuid4-''), (''updateDate'', PStr ''%Y-%m-%dT%H:%M:%S.0Z'')],
          \<lparr>uuid_draws = 1, clock_reads = 1, rendered = [], logged = []\<rparr>)
   \<and> process_item alexa_constants sample_env (PDict [])
         \<lparr>uuid_draws = 1, clock_reads = 1, rendered = [], logged = []\<rparr>
       = (Inr [(''uid'', PStr ''uuid4-i''), (''updateDate'', PStr ''%Y-%m-%dT%H:%M:%S.0Z+'')],
          \<lparr>uuid_draws = 2, clock_reads = 2, rendered = [], logged = []\<rparr>)"
proof -
  have r1: "item_renders alexa_constants sample_env (PDict [(''uid'', PStr ''abc-1'')])"
    by (simp add: item_renders_def field_renders_def template_keys_def dict_get_def sample_defs)
  have r2: "item_renders alexa_constants sample_env (PDict [])"
    by (simp add: item_renders_def field_renders_def template_keys_def dict_get_def sample_defs)
  have r3: "item_renders alexa_constants sample_env (PDict [(''uid'', PInt 2024)])"
    by (simp add: item_renders_def field_renders_def template_keys_def dict_get_def sample_defs)
  have r4: "item_renders alexa_constants sample_env (PDict [(''uid'', PBool True)])"
    by (simp add: item_renders_def field_renders_def template_keys_def dict_get_def sample_defs)
  show ?thesis
    using r1 r2 r3 r4 distinct_alexa_constants
      process_item_uid [OF distinct_alexa_constants r1, of start_world]
      process_item_uid [OF distinct_alexa_constants r2, of start_world]
    by (simp add: model_defs sample_defs str_defs)
qed

text \<open>
  The claim as it stands fails twice. An item with a UID and a title whose template
  fails to render has no record, and so no UID in any output: the exception of line 129
  leaves \<^verbatim>\<open>process_item\<close> before the UID is read. And for an item without a UID, two
  successive invocations yield the same UID when the generator returns the same UUID
  twice, which nothing in the code excludes.
\<close>

theorem process_item_uid_counterexample:
  "process_item alexa_constants sample_env
       (PDict [(''uid'', PStr ''abc-1''), (''title'', PTemplate ''{{ 1 / 0 }}'')]) start_world
     = (Inl (TemplateError ''{{ 1 / 0 }}''),
        \<lparr>uuid_draws = 0, clock_reads = 0, rendered = [''{{ 1 / 0 }}''], logged = []\<rparr>)
   \<and> process_item alexa_constants repeating_env (PDict []) start_world
     = (Inr [(''uid'', PStr ''uuid4-same''), (''updateDate'', PStr ''%Y-%m-%dT%H:%M:%S.0Z'')],
        \<lparr>uuid_draws = 1, clock_reads = 1, rendered = [], logged = []\<rparr>)
   \<and> process_item alexa_constants repeating_env (PDict [])
         \<lparr>uuid_draws = 1, clock_reads = 1, rendered = [], logged = []\<rparr>
     = (Inr [(''uid'', PStr ''uuid4-same''), (''updateDate'', PStr ''%Y-%m-%dT%H:%M:%S.0Z+'')],
        \<lparr>uuid_draws = 2, clock_reads = 2, rendered = [], logged = []\<rparr>)"
  by (simp add: model_defs sample_defs repeating_env_def)

text \<open>
  C7, as amended. For every item for which \<^verbatim>\<open>process_item\<close> returns a record, that is
  for every dict whose templates render (\<open>process_item_returns_iff\<close>), the
  record has under \<^verbatim>\<open>ATTR_UPDATE_DATE\<close> the instant that the clock gives during this
  invocation, formatted by \<^verbatim>\<open>strftime\<close> with \<^verbatim>\<open>DATE_FORMAT\<close>, whatever else the item
  holds; the clock is read once.
\<close>

theorem process_item_update_date:
  assumes "item_renders K E item"
  shows "\<exists>out w'. process_item K E item w = (Inr out, w')
           \<and> map_of out (ATTR_UPDATE_DATE K)
               = Some (PStr (strftime E (utcnow E (clock_reads w)) (DATE_FORMAT K)))
           \<and> clock_reads w' = Suc (clock_reads w)"
proof -
  from assms obtain d where item: "item = PDict d"
    by (cases item) (simp_all add: item_renders_def)
  from process_item_total [OF assms [unfolded item]] obtain out where
    "process_item K E (PDict d) w = (Inr out, world_after K d w)"
    "map_of out = record_map K E d w"
    by blast
  then show ?thesis
    by (simp add: item record_map_update_date update_date_of_def world_after_def)
qed

theorem process_item_update_date_witness:
  "item_renders alexa_constants sample_env (PDict greeting_item)
   \<and> process_item alexa_constants sample_env (PDict greeting_item)
         \<lparr>uuid_draws = 4, clock_reads = 2, rendered = [], logged = []\<rparr>
       = (Inr [(''titleText'', PStr ''Hello''), (''mainText'', PStr ''Body''),
               (''uid'', PStr ''uuid4-iiii''), (''redirectionURL'', PInt 7),
               (''updateDate'', PStr ''%Y-%m-%dT%H:%M:%S.0Z++'')],
          \<lparr>uuid_draws = 5, clock_reads = 3, rendered = [''{{ greeting }}''], logged = []\<rparr>)"
proof -
  have r: "item_renders alexa_constants sample_env (PDict greeting_item)"
    by (simp add: item_renders_def field_renders_def template_keys_def dict_get_def sample_defs)
  show ?thesis
    using r process_item_update_date [OF r,
        of "\<lparr>uuid_draws = 4, clock_reads = 2, rendered = [], logged = []\<rparr>"]
    by (simp add: model_defs sample_defs numeral_eq_Suc)
qed

text \<open>
  The claim for every item, whatever it holds, fails: the text of the item below is a
  template that fails to render, the exception of line 129 leaves \<^verbatim>\<open>process_item\<close>
  before line 119, the clock is never read and no update date is set.
\<close>

theorem process_item_update_date_counterexample:
  "process_item alexa_constants sample_env
       (PDict [(''title'', PStr ''Static''), (''text'', PTemplate ''{{ 1 / 0 }}'')]) start_world
     = (Inl (TemplateError ''{{ 1 / 0 }}''),
        \<lparr>uuid_draws = 0, clock_reads = 0, rendered = [''{{ 1 / 0 }}''], logged = []\<rparr>)"
  by (simp add: model_defs sample_defs)

subsection \<open>The outcomes of the handler\<close>

text \<open>
  C8, as amended. For a configuration with a string under \<^verbatim>\<open>CONF_PASSWORD\<close>, every call
  of the handler has exactly one of four outcomes. The password is missing or wrong:
  status 401, empty body, and nothing but logging has happened. The password is right
  and the briefing is no list: status 404, empty body, and nothing but logging has
  happened. The password is right, the briefing is a list and every item renders: status
  200 with one record for each item, in order, in the world that the loop over all items
  leaves. The password is right, the briefing is a list and \<open>it\<close> is its first item that
  does not render: the items before \<open>it\<close> have been transformed, in order; the transform
  of \<open>it\<close>, started in the world that those transforms have left, ends with an
  exception; the handler ends with that exception and in that world, and there is no
  response. No response ever holds a part of the list.
\<close>

theorem get_outcomes:
  assumes "map_of fb (CONF_PASSWORD K) = Some (PStr pw)"
  shows "(query_get r (API_PASSWORD K) \<noteq> Some pw
            \<and> (\<exists>w'. get K E fb r bid w = (Inr (Body_Status [] HTTP_UNAUTHORIZED), w')
                     \<and> only_logged w w'))
       \<or> (query_get r (API_PASSWORD K) = Some pw \<and> \<not> isinstance_list (dict_get fb bid)
            \<and> (\<exists>w'. get K E fb r bid w = (Inr (Body_Status [] HTTP_NOT_FOUND), w')
                     \<and> only_logged w w'))
       \<or> (\<exists>items. query_get r (API_PASSWORD K) = Some pw \<and> map_of fb bid = Some (PList items)
            \<and> list_all (item_renders K E) items
            \<and> (\<exists>recs w'. get K E fb r bid w = (Inr (Json_Response recs HTTP_OK), w')
                  \<and> briefing_loop K E items []
                        (logger DEBUG ''Received Alexa flash briefing request for: %s'' [bid] w)
                      = (Inr recs, w')
                  \<and> list_all2 (\<lambda>item rec. \<exists>u u'. process_item K E item u = (Inr rec, u'))
                       items recs))
       \<or> (\<exists>pre it post. query_get r (API_PASSWORD K) = Some pw
            \<and> map_of fb bid = Some (PList (pre @ it # post))
            \<and> list_all (item_renders K E) pre \<and> \<not> item_renders K E it
            \<and> (\<exists>recs w1 e w'.
                  briefing_loop K E pre []
                        (logger DEBUG ''Received Alexa flash briefing request for: %s'' [bid] w)
                      = (Inr recs, w1)
                  \<and> list_all2 (\<lambda>item rec. \<exists>u u'. process_item K E item u = (Inr rec, u'))
                       pre recs
                  \<and> process_item K E it w1 = (Inl e, w')
                  \<and> get K E fb r bid w = (Inl e, w')))"
proof (cases "query_get r (API_PASSWORD K) = Some pw")
  case False
  then have "fst (validate_password K fb r w) = Inr False"
    by (auto simp: validate_password_configured [OF assms] split: option.splits)
  from get_after_failed_validation [OF this] False show ?thesis
    by blast
next
  case True
  then have v: "fst (validate_password K fb r w) = Inr True"
    by (simp add: validate_password_configured [OF assms])
  show ?thesis
  proof (cases "isinstance_list (dict_get fb bid)")
    case False
    from get_not_list_briefing [OF v False, of E]
    have "\<exists>w'. get K E fb r bid w = (Inr (Body_Status [] HTTP_NOT_FOUND), w') \<and> only_logged w w'"
      by (simp add: only_logged_def logger_def)
    with True False show ?thesis by blast
  next
    case l: True
    then obtain items where i: "map_of fb bid = Some (PList items)"
      by (auto simp: isinstance_list_iff dict_get_def split: option.splits)
    let ?w0 = "logger DEBUG ''Received Alexa flash briefing request for: %s'' [bid] w"
    obtain res w' where b: "briefing_loop K E items [] ?w0 = (res, w')"
      using briefing_loop_result by blast
    show ?thesis
    proof (cases res)
      case (Inr recs)
      with b have lr: "briefing_loop K E items [] ?w0 = (Inr recs, w')" by simp
      from briefing_loop_Inr_renders [OF lr] have r: "list_all (item_renders K E) items" .
      from briefing_loop_Inr [OF lr] have
        a: "list_all2 (\<lambda>item rec. \<exists>u u'. process_item K E item u = (Inr rec, u')) items recs"
        by simp
      have "get K E fb r bid w = (Inr (Json_Response recs HTTP_OK), w')"
        by (simp add: get_list_briefing [OF v i] lr json_def)
      with True i r lr a show ?thesis by blast
    next
      case (Inl e)
      with b have le: "briefing_loop K E items [] ?w0 = (Inl e, w')" by simp
      from briefing_loop_Inl_split [OF le] obtain pre it post recs w1 where
        s: "items = pre @ it # post"
        and lp: "briefing_loop K E pre [] ?w0 = (Inr recs, w1)"
        and p: "process_item K E it w1 = (Inl e, w')"
        by blast
      from briefing_loop_Inr_renders [OF lp] have rp: "list_all (item_renders K E) pre" .
      from briefing_loop_Inr [OF lp] have
        a: "list_all2 (\<lambda>item rec. \<exists>u u'. process_item K E item u = (Inr rec, u')) pre recs"
        by simp
      from p have n: "\<not> item_renders K E it" by (rule process_item_Inl_not_renders)
      have g: "get K E fb r bid w = (Inl e, w')"
        by (simp add: get_list_briefing [OF v i] le)
      from True i s rp n lp a p g show ?thesis by blast
    qed
  qed
qed

theorem get_outcomes_witness:
  "map_of news_config (CONF_PASSWORD alexa_constants) = Some (PStr ''secret'')
   \<and> get alexa_constants sample_env news_config \<lparr>query = [(''api_password'', ''wrong'')]\<rparr>
         ''news'' start_world
       = (Inr (Body_Status [] 401),
          \<lparr>uuid_draws = 0, clock_reads = 0, rendered = [],
           logged = [(DEBUG, ''Received Alexa flash briefing request for: %s'', [''news'']),
                     (ERROR, ''Wrong password for Alexa flash briefing'', [])]\<rparr>)"
proof -
  have p: "map_of news_config (CONF_PASSWORD alexa_constants) = Some (PStr ''secret'')"
    by (simp add: sample_defs)
  have c: "\<not> compare_digest (encode_utf8 ''wrong'') (encode_utf8 ''secret'')"
    by (simp add: compare_digest_encode)
  show ?thesis
    using p get_outcomes [OF p, of "\<lparr>query = [(''api_password'', ''wrong'')]\<rparr>"
        sample_env "''news''" start_world]
    by (simp add: c get_def validate_password_def query_get_def query_getitem_def
        dict_getitem_def logger_def HTTP_UNAUTHORIZED_def sample_defs)
qed

text \<open>
  The claim that 401 and 404 are the only outcomes other than 200, each before any item
  is transformed, fails: below, both validations succeed, the first item is transformed
  (one UUID is drawn, the clock is read once), the template of the second item fails to
  render, and the handler ends with the exception.
\<close>

theorem get_partial_transform_counterexample:
  "get alexa_constants sample_env half_failing_config secret_request ''news'' start_world
     = (Inl (TemplateError ''{{ 1 / 0 }}''),
        \<lparr>uuid_draws = 1, clock_reads = 1, rendered = [''{{ 1 / 0 }}''],
         logged = [(DEBUG, ''Received Alexa flash briefing request for: %s'', [''news''])]\<rparr>)"
  by (simp add: model_defs sample_defs)

text \<open>
  C9. Every record that \<^verbatim>\<open>process_item\<close> returns has the keys \<^verbatim>\<open>ATTR_UID\<close> and
  \<^verbatim>\<open>ATTR_UPDATE_DATE\<close>, so it is not empty and the test \<^verbatim>\<open>if output\<close> of the loop never
  skips it: whenever the handler returns the response of \<^verbatim>\<open>self.json\<close>, the briefing is
  a list in the configuration and the response has exactly one record for each of its
  items, the \<open>i\<close>-th record being the transform of the \<open>i\<close>-th item.
\<close>

theorem no_item_skipped:
  "(\<forall>item w out w'. process_item K E item w = (Inr out, w') \<longrightarrow>
        out \<noteq> [] \<and> ATTR_UID K \<in> fst ` set out \<and> ATTR_UPDATE_DATE K \<in> fst ` set out)
   \<and> (\<forall>fb r bid w recs st w'. get K E fb r bid w = (Inr (Json_Response recs st), w') \<longrightarrow>
        (\<exists>items. map_of fb bid = Some (PList items) \<and> length recs = length items
           \<and> list_all2 (\<lambda>item rec. \<exists>u u'. process_item K E item u = (Inr rec, u')) items recs))"
proof (intro conjI allI impI)
  fix item w out w'
  assume p: "process_item K E item w = (Inr out, w')"
  show "out \<noteq> []" using p by (rule process_item_nonempty)
  show "ATTR_UID K \<in> fst ` set out" using p by (rule process_item_keys)
  show "ATTR_UPDATE_DATE K \<in> fst ` set out" using p by (rule process_item_keys)
next
  fix fb r bid w recs st w'
  assume "get K E fb r bid w = (Inr (Json_Response recs st), w')"
  from get_Json_Response [OF this] obtain items where
    i: "map_of fb bid = Some (PList items)"
    and l: "briefing_loop K E items []
              (logger DEBUG ''Received Alexa flash briefing request for: %s'' [bid] w)
            = (Inr recs, w')"
    by blast
  from briefing_loop_Inr [OF l] have
    a: "list_all2 (\<lambda>item rec. \<exists>u u'. process_item K E item u = (Inr rec, u')) items recs"
    by simp
  then have "length recs = length items"
    by (simp add: list_all2_lengthD)
  with i a show "\<exists>items. map_of fb bid = Some (PList items) \<and> length recs = length items
           \<and> list_all2 (\<lambda>item rec. \<exists>u u'. process_item K E item u = (Inr rec, u')) items recs"
    by blast
qed

theorem no_item_skipped_witness:
  "get alexa_constants sample_env two_item_config secret_request ''news'' start_world
     = (Inr (Json_Response
              [[(''titleText'', PStr ''Static''), (''uid'', PStr ''abc-1''),
                (''updateDate'', PStr ''%Y-%m-%dT%H:%M:%S.0Z'')],
               [(''titleText'', PStr ''Hello''), (''uid'', PStr ''uuid4-''),
                (''updateDate'', PStr ''%Y-%m-%dT%H:%M:%S.0Z+'')]] 200),
        \<lparr>uuid_draws = 1, clock_reads = 2, rendered = [''{{ greeting }}''],
         logged = [(DEBUG, ''Received Alexa flash briefing request for: %s'', [''news''])]\<rparr>)"
  using no_item_skipped [of alexa_constants sample_env]
  by (simp add: model_defs sample_defs)

text \<open>
  C10. A key set to \<^verbatim>\<open>None\<close> counts as absent. For every dict, key and world,
  \<^verbatim>\<open>process_item\<close> does the same on the dict with the key set to \<^verbatim>\<open>None\<close> as on the dict
  without the key; \<^verbatim>\<open>add_attribute_to_output\<close> leaves the output as it is when the
  configuration key is set to \<^verbatim>\<open>None\<close>; and \<^verbatim>\<open>get_uid\<close> draws a UUID when \<^verbatim>\<open>CONF_UID\<close>
  is set to \<^verbatim>\<open>None\<close>.
\<close>

theorem none_field_is_absent:
  "process_item K E (PDict (dict_setitem d k PNone)) w
     = process_item K E (PDict (AList.delete k d)) w
   \<and> add_attribute_to_output E (PDict (dict_setitem d k PNone)) k output ok w = (Inr output, w)
   \<and> get_uid K E (PDict (dict_setitem d (CONF_UID K) PNone)) w
       = (Inr (uuid4_str E (uuid_draws w)), w\<lparr>uuid_draws := Suc (uuid_draws w)\<rparr>)"
proof -
  have "process_item K E (PDict (dict_setitem d k PNone)) w
          = process_item K E (PDict (AList.delete k d)) w"
    by (rule process_item_cong) (rule dict_get_None_delete)
  moreover have "dict_get (dict_setitem d k' PNone) k' = PNone" for k'
    by (simp add: dict_get_def dict_setitem_def update_conv')
  ultimately show ?thesis
    by (simp add: add_attribute_dict get_uid_dict)
qed

theorem none_field_is_absent_witness:
  "process_item alexa_constants sample_env
       (PDict [(''title'', PNone), (''text'', PStr ''Body''), (''uid'', PNone)]) start_world
     = (Inr [(''mainText'', PStr ''Body''), (''uid'', PStr ''uuid4-''),
             (''updateDate'', PStr ''%Y-%m-%dT%H:%M:%S.0Z'')],
        \<lparr>uuid_draws = 1, clock_reads = 1, rendered = [], logged = []\<rparr>)
   \<and> process_item alexa_constants sample_env (PDict [(''text'', PStr ''Body'')]) start_world
     = (Inr [(''mainText'', PStr ''Body''), (''uid'', PStr ''uuid4-''),
             (''updateDate'', PStr ''%Y-%m-%dT%H:%M:%S.0Z'')],
        \<lparr>uuid_draws = 1, clock_reads = 1, rendered = [], logged = []\<rparr>)"
  using none_field_is_absent [of alexa_constants sample_env
      "[(''text'', PStr ''Body''), (''uid'', PNone)]" "''title''" start_world]
  by (simp add: model_defs sample_defs)

end
